theory Spec2Isabelle
  imports Main "HOL-Library.Sublist"
begin

section \<open>The ceres-solver recipe (recipes/ceres-solver/all/conanfile.py)\<close>

text \<open>
  The recipe is a class whose methods read and update the recipe object: its version, its
  settings, its options, the log, the requirements, the toolchain variables and the
  descriptor of the packaged artifact. Each method is a function from the recipe state to
  an error or the updated state.
\<close>

subsection \<open>Versions\<close>

text \<open>
  The recipe compares \<^verbatim>\<open>Version(self.version)\<close> with literals such as \<^verbatim>\<open>"2.2.0"\<close>. The
  class \<^verbatim>\<open>Version\<close> belongs to the package manager. A version is kept here as the list of
  its dot-separated numeric items (\<^verbatim>\<open>"2.2.0"\<close> is \<open>[2, 2, 0]\<close>); the class drops trailing
  zero items before it compares the item tuples, so \<^verbatim>\<open>"2"\<close>, \<^verbatim>\<open>"2.0"\<close> and \<^verbatim>\<open>"2.0.0"\<close>
  are one version. \<^verbatim>\<open>>=\<close> is the negation of \<^verbatim>\<open><\<close>.
\<close>

type_synonym version = "nat list"

definition nonzero_items :: "version \<Rightarrow> nat list" where
  "nonzero_items v = rev (dropWhile (\<lambda>x. x = 0) (rev v))"

fun items_lt :: "nat list \<Rightarrow> nat list \<Rightarrow> bool" where
  "items_lt [] [] = False"
| "items_lt [] (y # ys) = True"
| "items_lt (x # xs) [] = False"
| "items_lt (x # xs) (y # ys) = (x < y \<or> (x = y \<and> items_lt xs ys))"

definition version_lt :: "version \<Rightarrow> version \<Rightarrow> bool" where
  "version_lt a b = items_lt (nonzero_items a) (nonzero_items b)"

definition version_ge :: "version \<Rightarrow> version \<Rightarrow> bool" where
  "version_ge a b = (\<not> version_lt a b)"

subsection \<open>Errors, options, settings\<close>

datatype error = ConanInvalidConfiguration | ConanException

definition then_do :: "error + 'a \<Rightarrow> ('a \<Rightarrow> error + 'b) \<Rightarrow> error + 'b" where
  "then_do r f = (case r of Inl e \<Rightarrow> Inl e | Inr x \<Rightarrow> f x)"

text \<open>
  The values an option of this recipe can take: \<^verbatim>\<open>True\<close>, \<^verbatim>\<open>False\<close> and, for
  \<^verbatim>\<open>use_gflags\<close> only, \<^verbatim>\<open>"deprecated"\<close>.
\<close>

datatype opt_value = OTrue | OFalse | ODeprecated

type_synonym options = "string \<rightharpoonup> opt_value"

definition declared_options :: "(string \<times> opt_value list) list" where
  "declared_options =
     [(''shared'', [OTrue, OFalse]),
      (''fPIC'', [OTrue, OFalse]),
      (''use_glog'', [OTrue, OFalse]),
      (''use_gflags'', [OTrue, OFalse, ODeprecated]),
      (''use_custom_blas'', [OTrue, OFalse]),
      (''use_eigen_sparse'', [OTrue, OFalse]),
      (''use_TBB'', [OTrue, OFalse]),
      (''use_CXX11_threads'', [OTrue, OFalse]),
      (''use_CXX11'', [OTrue, OFalse]),
      (''use_schur_specializations'', [OTrue, OFalse]),
      (''use_cuda'', [OTrue, OFalse])]"

definition default_options :: options where
  "default_options = map_of
     [(''shared'', OFalse),
      (''fPIC'', OTrue),
      (''use_glog'', OFalse),
      (''use_gflags'', ODeprecated),
      (''use_custom_blas'', OTrue),
      (''use_eigen_sparse'', OTrue),
      (''use_TBB'', OFalse),
      (''use_CXX11_threads'', OFalse),
      (''use_CXX11'', OFalse),
      (''use_schur_specializations'', OTrue),
      (''use_cuda'', OFalse)]"

text \<open>
  An option set is complete when every declared option has a value and the value is one
  of the allowed ones: the state in which the package manager hands the options to
  \<^verbatim>\<open>config_options\<close>.
\<close>

definition complete_options :: "options \<Rightarrow> bool" where
  "complete_options opts =
     list_all (\<lambda>(k, allowed). case opts k of None \<Rightarrow> False | Some v \<Rightarrow> v \<in> set allowed)
       declared_options"

text \<open>The truth value of an option in a condition; a non-empty string other than a
  false one counts as true.\<close>

fun truthy :: "opt_value \<Rightarrow> bool" where
  "truthy OTrue = True"
| "truthy OFalse = False"
| "truthy ODeprecated = True"

text \<open>\<^verbatim>\<open>self.options.name\<close> raises when the option has been removed.\<close>

definition get_option :: "options \<Rightarrow> string \<Rightarrow> error + opt_value" where
  "get_option opts k = (case opts k of None \<Rightarrow> Inl ConanException | Some v \<Rightarrow> Inr v)"

text \<open>\<^verbatim>\<open>self.options.get_safe(name, default)\<close>: the default when the option is absent.
  \<open>None\<close> is Python's \<^verbatim>\<open>None\<close>, which is false in a condition.\<close>

definition get_safe :: "options \<Rightarrow> string \<Rightarrow> opt_value option \<Rightarrow> opt_value option" where
  "get_safe opts k d = (case opts k of None \<Rightarrow> d | Some v \<Rightarrow> Some v)"

fun truth :: "opt_value option \<Rightarrow> bool" where
  "truth None = False"
| "truth (Some v) = truthy v"

text \<open>\<^verbatim>\<open>del self.options.name\<close> raises when the option is not there;
  \<^verbatim>\<open>rm_safe\<close> swallows that error.\<close>

definition del_option :: "string \<Rightarrow> options \<Rightarrow> error + options" where
  "del_option k opts = (if opts k = None then Inl ConanException else Inr (opts(k := None)))"

definition rm_safe :: "string \<Rightarrow> options \<Rightarrow> options" where
  "rm_safe k opts = (case del_option k opts of Inl e \<Rightarrow> opts | Inr opts' \<Rightarrow> opts')"

record settings =
  os :: string
  os_version :: "string option"
  arch :: string
  compiler :: string
  compiler_version :: version
  compiler_cppstd :: "string option"
  compiler_libcxx :: "string option"
  msvc_runtime_flag :: string
  build_type :: string

subsection \<open>Helpers of the package manager that the recipe calls\<close>

definition is_apple_os :: "settings \<Rightarrow> bool" where
  "is_apple_os s = (os s \<in> set [''Macos'', ''iOS'', ''watchOS'', ''tvOS'', ''visionOS''])"

definition is_msvc :: "settings \<Rightarrow> bool" where
  "is_msvc s = (compiler s \<in> set [''Visual Studio'', ''msvc''])"

definition is_msvc_static_runtime :: "settings \<Rightarrow> bool" where
  "is_msvc_static_runtime s = (is_msvc s \<and> sublist ''MT'' (msvc_runtime_flag s))"

definition stdcpp_library :: "settings \<Rightarrow> string option" where
  "stdcpp_library s =
     (case compiler_libcxx s of
        None \<Rightarrow> None
      | Some l \<Rightarrow>
          if l \<in> set [''libstdc++'', ''libstdc++11''] then Some ''stdc++''
          else if l = ''libc++'' then Some ''c++''
          else if l = ''c++_shared'' then Some ''c++_shared''
          else if l = ''c++_static'' then Some ''c++_static''
          else None)"

text \<open>
  \<^verbatim>\<open>check_min_cppstd\<close> strips \<^verbatim>\<open>gnu\<close> from the \<^verbatim>\<open>compiler.cppstd\<close> setting, writes both
  standards as four-digit years (\<^verbatim>\<open>98\<close> is 1998, any other 20xx) and compares the two
  strings.
\<close>

fun str_lt :: "string \<Rightarrow> string \<Rightarrow> bool" where
  "str_lt [] [] = False"
| "str_lt [] (y # ys) = True"
| "str_lt (x # xs) [] = False"
| "str_lt (x # xs) (y # ys) = ((of_char x :: nat) < of_char y \<or> (x = y \<and> str_lt xs ys))"

definition extract_cpp_version :: "string \<Rightarrow> string" where
  "extract_cpp_version s = (if prefix ''gnu'' s then drop 3 s else s)"

definition add_millennium :: "string \<Rightarrow> string" where
  "add_millennium s = (if s = ''98'' then ''19'' @ s else ''20'' @ s)"

definition cppstd_lower :: "string \<Rightarrow> string \<Rightarrow> bool" where
  "cppstd_lower current required =
     str_lt (add_millennium (extract_cpp_version current)) (add_millennium required)"

definition check_min_cppstd :: "settings \<Rightarrow> string \<Rightarrow> error + unit" where
  "check_min_cppstd s cppstd =
     (case compiler_cppstd s of
        None \<Rightarrow> Inl ConanInvalidConfiguration
      | Some current \<Rightarrow>
          if cppstd_lower current cppstd then Inl ConanInvalidConfiguration else Inr ())"

definition os_path_join :: "string list \<Rightarrow> string" where
  "os_path_join parts = foldr (\<lambda>p acc. if acc = [] then p else p @ ''/'' @ acc) parts []"

subsection \<open>The recipe object\<close>

record requirement =
  ref :: string
  transitive_headers :: "bool option"
  transitive_libs :: "bool option"

datatype cmake_value = CBool bool | CStr string | COption opt_value | CNone

datatype property = PStr string | PList "string list"

record component =
  libs :: "string list"
  includedirs :: "string list"
  system_libs :: "string list"
  frameworks :: "string list"
  comp_requires :: "string list"
  build_modules :: "string \<rightharpoonup> string list"
  comp_properties :: "string \<rightharpoonup> property"

record cpp_info =
  properties :: "string \<rightharpoonup> property"
  names :: "string \<rightharpoonup> string"
  ceres :: component

record conanfile =
  name :: string
  version :: version
  settings :: settings
  options :: options
  output_warnings :: "string list"
  requires :: "requirement list"
  tool_requires :: "string list"
  toolchain :: "string \<rightharpoonup> cmake_value"
  cpp_info :: cpp_info

subsection \<open>The methods of the recipe\<close>

definition min_cppstd :: "conanfile \<Rightarrow> string" where
  "min_cppstd c =
     (if version_ge (version c) [2, 2, 0] then ''17''
      else if version_ge (version c) [2, 0, 0] then ''14''
      else ''98'')"

definition compilers_minimum_version :: "conanfile \<Rightarrow> (string \<rightharpoonup> version)" where
  "compilers_minimum_version c =
     (case map_of
        [(''14'', map_of
            [(''apple-clang'', [5]),
             (''clang'', [5]),
             (''gcc'', [5]),
             (''msvc'', [190]),
             (''Visual Studio'', [14])]),
         (''17'', map_of
            [(''apple-clang'', [10]),
             (''clang'', [7]),
             (''gcc'', [8]),
             (''msvc'', [191]),
             (''Visual Studio'', [15])])] (min_cppstd c) of
        None \<Rightarrow> Map.empty
      | Some table \<Rightarrow> table)"

definition config_options :: "conanfile \<Rightarrow> error + conanfile" where
  "config_options c =
     then_do (if os (settings c) = ''Windows'' then del_option ''fPIC'' (options c)
              else Inr (options c)) (\<lambda>o1.
     then_do (if version_ge (version c) [2, 0] then
                then_do (del_option ''use_TBB'' o1) (\<lambda>o2.
                then_do (del_option ''use_CXX11_threads'' o2) (\<lambda>o3.
                del_option ''use_CXX11'' o3))
              else Inr o1) (\<lambda>o4.
     Inr (c\<lparr>options := o4\<rparr>)))"

definition configure :: "conanfile \<Rightarrow> error + conanfile" where
  "configure c =
     then_do (get_option (options c) ''shared'') (\<lambda>shared.
     let o1 = (if truthy shared then rm_safe ''fPIC'' (options c) else options c) in
     then_do (get_option o1 ''use_gflags'') (\<lambda>use_gflags.
     Inr (c\<lparr>options := o1,
             output_warnings := (if use_gflags \<noteq> ODeprecated
                        then output_warnings c @ [''use_gflags option is deprecated'']
                        else output_warnings c)\<rparr>)))"

definition requirements :: "conanfile \<Rightarrow> error + conanfile" where
  "requirements c =
     (let r1 = requires c @
            [\<lparr>ref = ''eigen/3.4.0'', transitive_headers = Some True, transitive_libs = None\<rparr>]
      in
      then_do (get_option (options c) ''use_glog'') (\<lambda>use_glog.
      let r2 = (if truthy use_glog
                then r1 @ [\<lparr>ref = ''glog/0.6.0'', transitive_headers = Some True,
                             transitive_libs = Some True\<rparr>]
                else r1);
          r3 = (if truth (get_safe (options c) ''use_TBB'' None)
                then r2 @ [\<lparr>ref = ''onetbb/2020.3'', transitive_headers = None,
                             transitive_libs = None\<rparr>]
                else r2)
      in Inr (c\<lparr>requires := r3\<rparr>)))"

text \<open>
  \<^verbatim>\<open>package_id\<close> works on \<^verbatim>\<open>self.info\<close>, the copy of settings, options and requirements
  from which the package manager computes the package id.
\<close>

record conaninfo =
  info_settings :: settings
  info_options :: options
  info_requires :: "requirement list"

definition info :: "conanfile \<Rightarrow> conaninfo" where
  "info c = \<lparr>info_settings = settings c, info_options = options c, info_requires = requires c\<rparr>"

definition package_id :: "conanfile \<Rightarrow> error + conaninfo" where
  "package_id c =
     then_do (del_option ''use_gflags'' (info_options (info c))) (\<lambda>o1.
     Inr ((info c)\<lparr>info_options := o1\<rparr>))"

definition validate :: "conanfile \<Rightarrow> error + unit" where
  "validate c =
     then_do (case compiler_cppstd (settings c) of
                None \<Rightarrow> Inr ()
              | Some cppstd \<Rightarrow>
                  if cppstd \<noteq> [] then check_min_cppstd (settings c) (min_cppstd c)
                  else Inr ()) (\<lambda>_.
     case compilers_minimum_version c (compiler (settings c)) of
       None \<Rightarrow> Inr ()
     | Some minimum_version \<Rightarrow>
         if version_lt (compiler_version (settings c)) minimum_version
         then Inl ConanInvalidConfiguration
         else Inr ())"

definition build_requirements :: "conanfile \<Rightarrow> error + conanfile" where
  "build_requirements c =
     Inr (if version_ge (version c) [2, 2, 0]
          then c\<lparr>tool_requires := tool_requires c @ [''cmake/[>=3.21]'']\<rparr>
          else c)"

definition generate :: "conanfile \<Rightarrow> error + conanfile" where
  "generate c =
     (let opts = options c; ceres_version = version c; s = settings c in
      then_do (get_option opts ''use_glog'') (\<lambda>use_glog.
      then_do (get_option opts ''use_schur_specializations'') (\<lambda>use_schur_specializations.
      then_do (get_option opts ''use_custom_blas'') (\<lambda>use_custom_blas.
      then_do (get_option opts ''use_eigen_sparse'') (\<lambda>use_eigen_sparse.
      let tc0 = [''MINIGLOG'' \<mapsto> CBool (\<not> truthy use_glog),
                 ''GFLAGS'' \<mapsto> CBool False,
                 ''SUITESPARSE'' \<mapsto> CBool False,
                 ''LAPACK'' \<mapsto> CBool False,
                 ''SCHUR_SPECIALIZATIONS'' \<mapsto> COption use_schur_specializations,
                 ''CUSTOM_BLAS'' \<mapsto> COption use_custom_blas,
                 ''EIGENSPARSE'' \<mapsto> COption use_eigen_sparse,
                 ''BUILD_TESTING'' \<mapsto> CBool False,
                 ''BUILD_DOCUMENTATION'' \<mapsto> CBool False,
                 ''BUILD_EXAMPLES'' \<mapsto> CBool False,
                 ''BUILD_BENCHMARKS'' \<mapsto> CBool False]
      in
      then_do (if version_ge ceres_version [2, 2, 0] then
                 then_do (get_option opts ''use_cuda'') (\<lambda>use_cuda.
                 Inr (tc0(''USE_CUDA'' \<mapsto> COption use_cuda)))
               else if version_ge ceres_version [2, 1, 0] then
                 then_do (get_option opts ''use_cuda'') (\<lambda>use_cuda.
                 Inr (tc0(''CUDA'' \<mapsto> COption use_cuda)))
               else Inr tc0) (\<lambda>tc1.
      let tc2 = (if version_ge ceres_version [2, 2, 0]
                 then tc1(''EIGENMETIS'' \<mapsto> CBool False)
                 else tc1);
          tc3 = (if version_ge ceres_version [2, 0, 0] then
                   (let t = tc2(''PROVIDE_UNINSTALL_TARGET'' \<mapsto> CBool False) in
                    if is_apple_os s then t(''ACCELERATESPARSE'' \<mapsto> CBool True) else t)
                 else tc2);
          tc4 = (if version_lt ceres_version [2, 2, 0] then
                   (let t = tc3(''CXSPARSE'' \<mapsto> CBool False) in
                    if is_msvc s
                    then t(''MSVC_USE_STATIC_CRT'' \<mapsto> CBool (is_msvc_static_runtime s))
                    else t)
                 else tc3);
          tc5 = (if version_lt ceres_version [2, 1, 0]
                 then tc4(''LIB_SUFFIX'' \<mapsto> CStr '''')
                 else tc4)
      in
      then_do (if version_lt ceres_version [2, 0, 0] then
                 then_do (get_option opts ''use_CXX11'') (\<lambda>use_CXX11.
                 then_do (get_option opts ''use_TBB'') (\<lambda>use_TBB.
                 then_do (get_option opts ''use_CXX11_threads'') (\<lambda>use_CXX11_threads.
                 Inr (tc5(''CXX11'' \<mapsto> COption use_CXX11,
                          ''OPENMP'' \<mapsto> CBool False,
                          ''TBB'' \<mapsto> COption use_TBB,
                          ''CXX11_THREADS'' \<mapsto> COption use_CXX11_threads)))))
               else Inr tc5) (\<lambda>tc6.
      let tc7 = (if os s = ''iOS''
                 then tc6(''IOS_DEPLOYMENT_TARGET'' \<mapsto>
                            (case os_version s of None \<Rightarrow> CNone | Some v \<Rightarrow> CStr v))
                 else tc6)
      in Inr (c\<lparr>toolchain := tc7\<rparr>))))))))"

definition module_variables_file_rel_path :: "conanfile \<Rightarrow> string" where
  "module_variables_file_rel_path c =
     os_path_join [''lib'', ''cmake'', ''conan-official-'' @ name c @ ''-variables.cmake'']"

definition package_info :: "conanfile \<Rightarrow> error + conanfile" where
  "package_info c =
     (let s = settings c; opts = options c; ci = cpp_info c;
          modfile = module_variables_file_rel_path c;
          props = (properties ci)
                    (''cmake_file_name'' \<mapsto> PStr ''Ceres'',
                     ''cmake_target_name'' \<mapsto> PStr ''Ceres::ceres'',
                     ''cmake_target_aliases'' \<mapsto> PList [''ceres''],
                     ''cmake_build_modules'' \<mapsto> PList [modfile]);
          libsuffix = (if build_type s = ''Debug'' then ''-debug'' else '''');
          k0 = ceres ci
      in
      then_do (get_option opts ''use_cuda'') (\<lambda>use_cuda.
      let libs1 = [''ceres'' @ libsuffix];
          libs2 = (if truthy use_cuda then libs1 @ [''ceres_cuda_kernels'' @ libsuffix]
                   else libs1);
          inc1 = includedirs k0 @ [os_path_join [''include'', ''ceres'']]
      in
      then_do (get_option opts ''use_glog'') (\<lambda>use_glog.
      let inc2 = (if \<not> truthy use_glog
                  then inc1 @ [os_path_join [''include'', ''ceres'', ''internal'', ''miniglog'']]
                  else inc1);
          sys1 = (if os s \<in> set [''Linux'', ''FreeBSD'']
                  then (let t = system_libs k0 @ [''m''] in
                        if truth (get_safe opts ''use_CXX11_threads'' (Some OTrue))
                        then t @ [''pthread''] else t)
                  else system_libs k0);
          fw1 = (if os s \<in> set [''Linux'', ''FreeBSD''] then frameworks k0
                 else if is_apple_os s then
                   (if version_ge (version c) [2] then frameworks k0 @ [''Accelerate'']
                    else frameworks k0)
                 else frameworks k0);
          req1 = [''eigen::eigen''];
          req2 = (if truthy use_glog then req1 @ [''glog::glog''] else req1);
          req3 = (if truth (get_safe opts ''use_TBB'' None) then req2 @ [''onetbb::onetbb'']
                  else req2)
      in
      then_do (get_option opts ''shared'') (\<lambda>shared.
      let sys2 = (if \<not> truthy shared then
                    (case stdcpp_library s of
                       None \<Rightarrow> sys1
                     | Some libcxx \<Rightarrow> if libcxx \<noteq> [] then sys1 @ [libcxx] else sys1)
                  else sys1);
          k1 = k0\<lparr>libs := libs2, includedirs := inc2, system_libs := sys2,
                  frameworks := fw1, comp_requires := req3,
                  build_modules := (build_modules k0)
                    (''cmake_find_package'' \<mapsto> [modfile],
                     ''cmake_find_package_multi'' \<mapsto> [modfile]),
                  comp_properties := (comp_properties k0)
                    (''cmake_target_name'' \<mapsto> PStr ''Ceres::ceres'')\<rparr>
      in
      Inr (c\<lparr>cpp_info := ci\<lparr>properties := props,
                              names := (names ci)
                                (''cmake_find_package'' \<mapsto> ''Ceres'',
                                 ''cmake_find_package_multi'' \<mapsto> ''Ceres''),
                              ceres := k1\<rparr>\<rparr>)))))"

subsection \<open>The order of the steps\<close>

text \<open>
  Modelled from the spec: the order in which the package manager calls the methods of the
  recipe is not in the recipe file. The spec gives a linear pipeline in which every step
  runs to completion before the next begins and a failed step aborts the whole process:
  resolve options, declare dependencies, validate (a configuration error aborts before
  any build step), translate flags, build, emit the descriptor. The external build
  between \<^verbatim>\<open>generate\<close> and \<^verbatim>\<open>package_info\<close> changes nothing of the recipe object.
\<close>

definition create :: "conanfile \<Rightarrow> error + conanfile" where
  "create c =
     then_do (config_options c) (\<lambda>c1.
     then_do (configure c1) (\<lambda>c2.
     then_do (requirements c2) (\<lambda>c3.
     then_do (build_requirements c3) (\<lambda>c4.
     then_do (package_id c4) (\<lambda>_.
     then_do (validate c4) (\<lambda>_.
     then_do (generate c4) (\<lambda>c5.
     package_info c5)))))))"

subsection \<open>Concrete configurations\<close>

text \<open>
  A recipe object as the package manager creates it: the declared defaults overlaid with
  the requested option values, nothing logged, required or generated yet, and a component
  whose only include directory is \<^verbatim>\<open>include\<close>.
\<close>

definition new_component :: component where
  "new_component =
     \<lparr>libs = [], includedirs = [''include''], system_libs = [], frameworks = [],
      comp_requires = [], build_modules = Map.empty, comp_properties = Map.empty\<rparr>"

definition new_recipe :: "version \<Rightarrow> settings \<Rightarrow> options \<Rightarrow> conanfile" where
  "new_recipe v s overlay =
     \<lparr>name = ''ceres-solver'', version = v, settings = s,
      options = default_options ++ overlay, output_warnings = [], requires = [],
      tool_requires = [], toolchain = Map.empty,
      cpp_info = \<lparr>properties = Map.empty, names = Map.empty, ceres = new_component\<rparr>\<rparr>"

definition linux_gcc :: "string \<Rightarrow> settings" where
  "linux_gcc bt =
     \<lparr>os = ''Linux'', os_version = None, arch = ''x86_64'', compiler = ''gcc'',
      compiler_version = [11], compiler_cppstd = None,
      compiler_libcxx = Some ''libstdc++11'', msvc_runtime_flag = [], build_type = bt\<rparr>"

text \<open>
  The configuration of the example in the spec: version 2.2.0 with the option overlay
  \<^verbatim>\<open>{use_glog: false, use_cuda: true}\<close>.
\<close>

definition example_overlay :: options where
  "example_overlay = [''use_glog'' \<mapsto> OFalse, ''use_cuda'' \<mapsto> OTrue]"

definition example_recipe :: "settings \<Rightarrow> conanfile" where
  "example_recipe s = new_recipe [2, 2, 0] s example_overlay"

section \<open>Properties\<close>

subsection \<open>Sequencing, option access\<close>

lemma then_do_Inr_iff: "then_do r f = Inr y \<longleftrightarrow> (\<exists>x. r = Inr x \<and> f x = Inr y)"
  by (cases r) (simp_all add: then_do_def)

lemma then_do_Inr: "then_do (Inr x) f = f x"
  by (simp add: then_do_def)

lemma then_do_Inl: "then_do (Inl e) f = Inl e"
  by (simp add: then_do_def)

lemma del_option_Inr_iff:
  "del_option k opts = Inr o' \<longleftrightarrow> opts k \<noteq> None \<and> o' = opts(k := None)"
  by (auto simp: del_option_def)

lemma del_option_present: "opts k = Some v \<Longrightarrow> del_option k opts = Inr (opts(k := None))"
  by (simp add: del_option_def)

lemma get_option_present: "opts k = Some v \<Longrightarrow> get_option opts k = Inr v"
  by (simp add: get_option_def)

lemma get_option_Inr_iff: "get_option opts k = Inr v \<longleftrightarrow> opts k = Some v"
  by (simp add: get_option_def split: option.splits)

lemma complete_options_present:
  assumes "complete_options opts" and "k \<in> fst ` set declared_options"
  shows "\<exists>v. opts k = Some v"
proof -
  from assms(2) obtain allowed where "(k, allowed) \<in> set declared_options" by auto
  with assms(1) have "case opts k of None \<Rightarrow> False | Some v \<Rightarrow> v \<in> set allowed"
    unfolding complete_options_def list_all_iff by fastforce
  then show ?thesis by (cases "opts k") simp_all
qed

lemma complete_default_options: "complete_options default_options"
  by (simp add: complete_options_def default_options_def declared_options_def)

subsection \<open>Option resolution\<close>

lemma config_options_result:
  assumes "config_options c = Inr c'"
  shows "c' = c\<lparr>options :=
           (if version_ge (version c) [2, 0]
            then (\<lambda>o1. o1(''use_TBB'' := None, ''use_CXX11_threads'' := None,
                           ''use_CXX11'' := None))
            else id)
           ((if os (settings c) = ''Windows'' then (\<lambda>o1. o1(''fPIC'' := None)) else id)
              (options c))\<rparr>"
  using assms
  by (auto simp: config_options_def then_do_Inr_iff del_option_Inr_iff split: if_splits)

lemma config_options_total:
  assumes "complete_options (options c)"
  shows "\<exists>c'. config_options c = Inr c'"
proof -
  have p: "\<And>k. k \<in> fst ` set declared_options \<Longrightarrow> \<exists>v. options c k = Some v"
    using assms complete_options_present by blast
  obtain v1 where v1: "options c ''fPIC'' = Some v1"
    using p[of "''fPIC''"] by (auto simp: declared_options_def)
  obtain v2 where v2: "options c ''use_TBB'' = Some v2"
    using p[of "''use_TBB''"] by (auto simp: declared_options_def)
  obtain v3 where v3: "options c ''use_CXX11_threads'' = Some v3"
    using p[of "''use_CXX11_threads''"] by (auto simp: declared_options_def)
  obtain v4 where v4: "options c ''use_CXX11'' = Some v4"
    using p[of "''use_CXX11''"] by (auto simp: declared_options_def)
  show ?thesis
    by (simp add: config_options_def then_do_def del_option_def v1 v2 v3 v4)
qed

text \<open>
  C1. For every version greater than or equal to 2.0, the options \<^verbatim>\<open>use_TBB\<close>,
  \<^verbatim>\<open>use_CXX11_threads\<close> and \<^verbatim>\<open>use_CXX11\<close> are absent from the option set that
  \<^verbatim>\<open>config_options\<close> produces; and \<^verbatim>\<open>config_options\<close> does produce one from every
  complete option set.
\<close>

theorem config_options_removes_threading:
  assumes "version_ge (version c) [2, 0]"
  shows "(complete_options (options c) \<longrightarrow> (\<exists>c'. config_options c = Inr c')) \<and>
         (\<forall>c'. config_options c = Inr c' \<longrightarrow>
            options c' ''use_TBB'' = None \<and> options c' ''use_CXX11_threads'' = None \<and>
            options c' ''use_CXX11'' = None)"
proof -
  have total: "complete_options (options c) \<longrightarrow> (\<exists>c'. config_options c = Inr c')"
    using config_options_total by blast
  have absent: "options c' ''use_TBB'' = None \<and> options c' ''use_CXX11_threads'' = None \<and>
            options c' ''use_CXX11'' = None" if "config_options c = Inr c'" for c'
    using config_options_result[OF that] assms by simp
  show ?thesis using total absent by blast
qed

lemma new_recipe_sel:
  "version (new_recipe v s ov) = v"
  "settings (new_recipe v s ov) = s"
  "options (new_recipe v s ov) = default_options ++ ov"
  by (simp_all add: new_recipe_def)

theorem config_options_removes_threading_witness:
  "version_ge (version (new_recipe [2, 2, 0] (linux_gcc ''Release'') Map.empty)) [2, 0] \<and>
   complete_options (options (new_recipe [2, 2, 0] (linux_gcc ''Release'') Map.empty)) \<and>
   (\<exists>c'. config_options (new_recipe [2, 2, 0] (linux_gcc ''Release'') Map.empty) = Inr c' \<and>
      options c' ''use_TBB'' = None \<and> options c' ''use_CXX11_threads'' = None \<and>
      options c' ''use_CXX11'' = None)"
proof -
  have v: "version_ge (version (new_recipe [2, 2, 0] (linux_gcc ''Release'') Map.empty)) [2, 0]"
    by (simp add: new_recipe_def version_ge_def version_lt_def nonzero_items_def)
  have k: "complete_options (options (new_recipe [2, 2, 0] (linux_gcc ''Release'') Map.empty))"
    by (simp add: new_recipe_def complete_default_options)
  from config_options_removes_threading[OF v] v k show ?thesis by blast
qed

subsection \<open>Validation\<close>

lemma min_cppstd_cong: "version c' = version c \<Longrightarrow> min_cppstd c' = min_cppstd c"
  by (simp add: min_cppstd_def)

lemma compilers_minimum_version_cong:
  assumes "version c' = version c"
  shows "compilers_minimum_version c' = compilers_minimum_version c"
proof -
  have "min_cppstd c' = min_cppstd c" using assms by (rule min_cppstd_cong)
  then show ?thesis unfolding compilers_minimum_version_def by (rule arg_cong)
qed

lemma validate_cong:
  assumes "version c' = version c" and "settings c' = settings c"
  shows "validate c' = validate c"
proof -
  have m: "min_cppstd c' = min_cppstd c" using assms(1) by (rule min_cppstd_cong)
  have t: "compilers_minimum_version c' = compilers_minimum_version c"
    using assms(1) by (rule compilers_minimum_version_cong)
  show ?thesis unfolding validate_def by (simp only: assms(2) m t)
qed

lemma validate_cases:
  "validate c =
     (if (\<exists>cppstd. compiler_cppstd (settings c) = Some cppstd \<and> cppstd \<noteq> [] \<and>
            cppstd_lower cppstd (min_cppstd c)) \<or>
         (\<exists>m. compilers_minimum_version c (compiler (settings c)) = Some m \<and>
            version_lt (compiler_version (settings c)) m)
      then Inl ConanInvalidConfiguration else Inr ())"
proof (cases "compiler_cppstd (settings c)")
  case None
  then show ?thesis
    by (cases "compilers_minimum_version c (compiler (settings c))")
       (simp_all add: validate_def then_do_def)
next
  case (Some cppstd)
  then show ?thesis
    by (cases "compilers_minimum_version c (compiler (settings c))")
       (simp_all add: validate_def then_do_def check_min_cppstd_def)
qed

lemma config_options_frame:
  assumes "config_options c = Inr c'"
  shows "version c' = version c" and "settings c' = settings c"
    and "k \<notin> {''fPIC'', ''use_TBB'', ''use_CXX11_threads'', ''use_CXX11''} \<Longrightarrow>
           options c' k = options c k"
proof -
  note r = config_options_result[OF assms]
  show "version c' = version c" by (subst r) simp
  show "settings c' = settings c" by (subst r) simp
  show "options c' k = options c k"
    if "k \<notin> {''fPIC'', ''use_TBB'', ''use_CXX11_threads'', ''use_CXX11''}"
    using that by (subst r) simp
qed

lemma configure_total:
  assumes "options c ''shared'' = Some a" and "options c ''use_gflags'' = Some b"
  shows "\<exists>c'. configure c = Inr c' \<and> version c' = version c \<and> settings c' = settings c \<and>
           requires c' = requires c \<and>
           (\<forall>k. k \<noteq> ''fPIC'' \<longrightarrow> options c' k = options c k)"
  using assms
  by (simp add: configure_def then_do_def get_option_def rm_safe_def del_option_def Let_def)

lemma requirements_total:
  assumes "options c ''use_glog'' = Some a"
  shows "\<exists>c'. requirements c = Inr c' \<and> version c' = version c \<and> settings c' = settings c \<and>
           options c' = options c"
  using assms
  by (simp add: requirements_def then_do_def get_option_def Let_def)

lemma build_requirements_total:
  "\<exists>c'. build_requirements c = Inr c' \<and> version c' = version c \<and> settings c' = settings c \<and>
           options c' = options c"
  by (simp add: build_requirements_def)

lemma package_id_total:
  assumes "options c ''use_gflags'' = Some a"
  shows "\<exists>i. package_id c = Inr i"
  using assms by (simp add: package_id_def then_do_def del_option_def info_def)

lemma create_until_validate:
  assumes "complete_options (options c)"
  shows "\<exists>c4. version c4 = version c \<and> settings c4 = settings c \<and>
           create c = then_do (validate c) (\<lambda>_. then_do (generate c4) package_info)"
proof -
  have p: "\<And>k. k \<in> fst ` set declared_options \<Longrightarrow> \<exists>v. options c k = Some v"
    using assms complete_options_present by blast
  obtain a where a: "options c ''shared'' = Some a"
    using p[of "''shared''"] by (auto simp: declared_options_def)
  obtain b where b: "options c ''use_gflags'' = Some b"
    using p[of "''use_gflags''"] by (auto simp: declared_options_def)
  obtain g where g: "options c ''use_glog'' = Some g"
    using p[of "''use_glog''"] by (auto simp: declared_options_def)
  obtain c1 where c1: "config_options c = Inr c1"
    using config_options_total[OF assms] by blast
  have c1v: "version c1 = version c" "settings c1 = settings c"
    using config_options_frame[OF c1] by simp_all
  have c1o: "options c1 ''shared'' = Some a" "options c1 ''use_gflags'' = Some b"
    "options c1 ''use_glog'' = Some g"
    using config_options_frame(3)[OF c1] a b g by simp_all
  obtain c2 where c2: "configure c1 = Inr c2" "version c2 = version c1" "settings c2 = settings c1"
    "\<forall>k. k \<noteq> ''fPIC'' \<longrightarrow> options c2 k = options c1 k"
    using configure_total[OF c1o(1) c1o(2)] by blast
  have c2o: "options c2 ''use_gflags'' = Some b" "options c2 ''use_glog'' = Some g"
    using c2(4) c1o by simp_all
  obtain c3 where c3: "requirements c2 = Inr c3" "version c3 = version c2" "settings c3 = settings c2"
    "options c3 = options c2"
    using requirements_total[OF c2o(2)] by blast
  obtain c4 where c4: "build_requirements c3 = Inr c4" "version c4 = version c3" "settings c4 = settings c3"
    "options c4 = options c3"
    using build_requirements_total by blast
  obtain i where i: "package_id c4 = Inr i"
    using package_id_total[of c4 b] c4(4) c3(4) c2o(1) by auto
  have vs: "version c4 = version c" "settings c4 = settings c"
    using c4 c3 c2 c1v by simp_all
  have "create c = then_do (validate c4) (\<lambda>_. then_do (generate c4) package_info)"
    by (simp add: create_def c1 c2(1) c3(1) c4(1) i then_do_Inr)
  with validate_cong[OF vs] vs show ?thesis by auto
qed

text \<open>
  C2. \<^verbatim>\<open>validate\<close> raises \<^verbatim>\<open>ConanInvalidConfiguration\<close> exactly when the language standard
  of the configuration is below the minimum of the version: the declared
  \<^verbatim>\<open>compiler.cppstd\<close> is lower than \<^verbatim>\<open>_min_cppstd\<close>, or the compiler is listed for that
  standard in \<^verbatim>\<open>_compilers_minimum_version\<close> and its version is lower than the listed
  one. In every other configuration it raises nothing. When it raises, the pipeline
  stops there with that error: no flag is translated and nothing is built.
\<close>

theorem validate_minimum_standard:
  "validate c =
     (if (\<exists>cppstd. compiler_cppstd (settings c) = Some cppstd \<and> cppstd \<noteq> [] \<and>
            cppstd_lower cppstd (min_cppstd c)) \<or>
         (\<exists>m. compilers_minimum_version c (compiler (settings c)) = Some m \<and>
            version_lt (compiler_version (settings c)) m)
      then Inl ConanInvalidConfiguration else Inr ()) \<and>
   (complete_options (options c) \<longrightarrow> validate c = Inl ConanInvalidConfiguration \<longrightarrow>
      create c = Inl ConanInvalidConfiguration)"
proof -
  have "create c = Inl ConanInvalidConfiguration"
    if "complete_options (options c)" "validate c = Inl ConanInvalidConfiguration"
    using create_until_validate[OF that(1)] that(2) by (auto simp: then_do_Inl)
  then show ?thesis using validate_cases[of c] by blast
qed

theorem validate_minimum_standard_witness:
  "complete_options
     (options (new_recipe [2, 2, 0] ((linux_gcc ''Release'')\<lparr>compiler_version := [7]\<rparr>) Map.empty)) \<and>
   validate (new_recipe [2, 2, 0] ((linux_gcc ''Release'')\<lparr>compiler_version := [7]\<rparr>) Map.empty)
     = Inl ConanInvalidConfiguration \<and>
   create (new_recipe [2, 2, 0] ((linux_gcc ''Release'')\<lparr>compiler_version := [7]\<rparr>) Map.empty)
     = Inl ConanInvalidConfiguration \<and>
   validate (new_recipe [2, 2, 0] (linux_gcc ''Release'') Map.empty) = Inr ()"
proof -
  let ?c = "new_recipe [2, 2, 0] ((linux_gcc ''Release'')\<lparr>compiler_version := [7]\<rparr>) Map.empty"
  have k: "complete_options (options ?c)"
    by (simp add: new_recipe_def complete_default_options)
  have m: "min_cppstd ?c = ''17''"
    by (simp add: min_cppstd_def new_recipe_def version_ge_def version_lt_def nonzero_items_def)
  have t: "compilers_minimum_version ?c (compiler (settings ?c)) = Some [8]"
    unfolding compilers_minimum_version_def m by (simp add: new_recipe_def linux_gcc_def)
  have l: "version_lt (compiler_version (settings ?c)) [8]"
    by (simp add: new_recipe_def linux_gcc_def version_lt_def nonzero_items_def)
  have v: "validate ?c = Inl ConanInvalidConfiguration"
    using validate_minimum_standard[of ?c] t l by auto
  let ?d = "new_recipe [2, 2, 0] (linux_gcc ''Release'') Map.empty"
  have m': "min_cppstd ?d = ''17''"
    by (simp add: min_cppstd_def new_recipe_def version_ge_def version_lt_def nonzero_items_def)
  have t': "compilers_minimum_version ?d (compiler (settings ?d)) = Some [8]"
    unfolding compilers_minimum_version_def m' by (simp add: new_recipe_def linux_gcc_def)
  have l': "\<not> version_lt (compiler_version (settings ?d)) [8]"
    by (simp add: new_recipe_def linux_gcc_def version_lt_def nonzero_items_def)
  have s': "compiler_cppstd (settings ?d) = None"
    by (simp add: new_recipe_def linux_gcc_def)
  have w: "validate ?d = Inr ()"
    using validate_minimum_standard[of ?d] t' l' s' by auto
  from validate_minimum_standard[of ?c] k v w show ?thesis by blast
qed

subsection \<open>The descriptor of the artifact\<close>

lemma package_info_total:
  assumes "options c ''use_cuda'' = Some u" and "options c ''use_glog'' = Some g"
    and "options c ''shared'' = Some sh"
  shows "\<exists>c'. package_info c = Inr c'"
  using assms
  by (simp add: package_info_def Let_def then_do_def get_option_def split del: if_split)

lemma package_info_frame:
  assumes "package_info c = Inr c'"
  shows "version c' = version c" and "settings c' = settings c" and "options c' = options c"
    and "requires c' = requires c" and "toolchain c' = toolchain c"
  using assms
  by (auto simp: package_info_def Let_def then_do_Inr_iff get_option_Inr_iff split del: if_split)

lemma package_info_libs:
  assumes "package_info c = Inr c'"
  shows "\<exists>u. options c ''use_cuda'' = Some u \<and>
           libs (ceres (cpp_info c')) =
             (''ceres'' @ (if build_type (settings c) = ''Debug'' then ''-debug'' else '''')) #
             (if truthy u
              then [''ceres_cuda_kernels'' @
                      (if build_type (settings c) = ''Debug'' then ''-debug'' else '''')]
              else [])"
  using assms
  by (auto simp: package_info_def Let_def then_do_Inr_iff get_option_Inr_iff)

text \<open>
  C3. In every configuration the library names of the descriptor carry the suffix
  \<^verbatim>\<open>-debug\<close> if and only if the build type is \<^verbatim>\<open>Debug\<close>: each emitted name ends with it
  in a Debug build and none does otherwise. There is always at least one name, and
  \<^verbatim>\<open>package_info\<close> returns whenever the three options it reads are present.
\<close>

theorem package_info_debug_suffix:
  "(options c ''use_cuda'' \<noteq> None \<and> options c ''use_glog'' \<noteq> None \<and>
    options c ''shared'' \<noteq> None \<longrightarrow> (\<exists>c'. package_info c = Inr c')) \<and>
   (\<forall>c'. package_info c = Inr c' \<longrightarrow>
      libs (ceres (cpp_info c')) \<noteq> [] \<and>
      (\<forall>n \<in> set (libs (ceres (cpp_info c'))).
         suffix ''-debug'' n \<longleftrightarrow> build_type (settings c) = ''Debug''))"
proof -
  have total: "\<exists>c'. package_info c = Inr c'"
    if "options c ''use_cuda'' \<noteq> None \<and> options c ''use_glog'' \<noteq> None \<and>
        options c ''shared'' \<noteq> None"
    using that package_info_total[of c] by auto
  have names: "libs (ceres (cpp_info c')) \<noteq> [] \<and>
      (\<forall>n \<in> set (libs (ceres (cpp_info c'))).
         suffix ''-debug'' n \<longleftrightarrow> build_type (settings c) = ''Debug'')"
    if "package_info c = Inr c'" for c'
  proof -
    from package_info_libs[OF that] obtain u where
      l: "libs (ceres (cpp_info c')) =
             (''ceres'' @ (if build_type (settings c) = ''Debug'' then ''-debug'' else '''')) #
             (if truthy u
              then [''ceres_cuda_kernels'' @
                      (if build_type (settings c) = ''Debug'' then ''-debug'' else '''')]
              else [])" by blast
    show ?thesis unfolding l by (cases "truthy u") (auto simp: suffix_to_prefix)
  qed
  show ?thesis using total names by blast
qed

lemma package_info_cuda_only_libs:
  assumes "package_info (c\<lparr>options := (options c)(''use_cuda'' \<mapsto> OFalse)\<rparr>) = Inr d_off"
    and "package_info (c\<lparr>options := (options c)(''use_cuda'' \<mapsto> OTrue)\<rparr>) = Inr d_on"
  shows "cpp_info d_on =
           (cpp_info d_off)\<lparr>ceres := (ceres (cpp_info d_off))
              \<lparr>libs := libs (ceres (cpp_info d_off)) @
                 [''ceres_cuda_kernels'' @
                    (if build_type (settings c) = ''Debug'' then ''-debug'' else '''')]\<rparr>\<rparr>"
  using assms
  by (auto simp: package_info_def Let_def then_do_Inr_iff get_option_Inr_iff get_safe_def
           module_variables_file_rel_path_def
           split del: if_split cong: if_cong option.case_cong)

theorem package_info_debug_suffix_witness:
  "options (new_recipe [2, 2, 0] (linux_gcc ''Debug'') Map.empty) ''use_cuda'' \<noteq> None \<and>
   options (new_recipe [2, 2, 0] (linux_gcc ''Debug'') Map.empty) ''use_glog'' \<noteq> None \<and>
   options (new_recipe [2, 2, 0] (linux_gcc ''Debug'') Map.empty) ''shared'' \<noteq> None \<and>
   (\<exists>c'. package_info (new_recipe [2, 2, 0] (linux_gcc ''Debug'') Map.empty) = Inr c' \<and>
      libs (ceres (cpp_info c')) \<noteq> [] \<and>
      (\<forall>n \<in> set (libs (ceres (cpp_info c'))). suffix ''-debug'' n))"
proof -
  let ?c = "new_recipe [2, 2, 0] (linux_gcc ''Debug'') Map.empty"
  have p: "options ?c ''use_cuda'' \<noteq> None \<and> options ?c ''use_glog'' \<noteq> None \<and>
           options ?c ''shared'' \<noteq> None"
    by (simp add: new_recipe_def default_options_def)
  have b: "build_type (settings ?c) = ''Debug''"
    by (simp add: new_recipe_def linux_gcc_def)
  from package_info_debug_suffix[of ?c] p b show ?thesis by blast
qed

text \<open>
  C4. In every configuration, enabling \<^verbatim>\<open>use_cuda\<close> adds exactly one library name to the
  descriptor compared with the same configuration with \<^verbatim>\<open>use_cuda\<close> disabled: the list
  of names is the disabled one followed by one new name, and nothing else of the
  descriptor differs. A second call of \<^verbatim>\<open>package_info\<close> assigns the list afresh, so the
  name is not duplicated.
\<close>

theorem package_info_cuda_library:
  assumes "options c ''use_glog'' = Some g" and "options c ''shared'' = Some sh"
  shows "\<exists>d_off d_on d2 n.
     package_info (c\<lparr>options := (options c)(''use_cuda'' \<mapsto> OFalse)\<rparr>) = Inr d_off \<and>
     package_info (c\<lparr>options := (options c)(''use_cuda'' \<mapsto> OTrue)\<rparr>) = Inr d_on \<and>
     libs (ceres (cpp_info d_on)) = libs (ceres (cpp_info d_off)) @ [n] \<and>
     n \<notin> set (libs (ceres (cpp_info d_off))) \<and>
     cpp_info d_on = (cpp_info d_off)\<lparr>ceres := (ceres (cpp_info d_off))
                        \<lparr>libs := libs (ceres (cpp_info d_off)) @ [n]\<rparr>\<rparr> \<and>
     package_info d_on = Inr d2 \<and>
     libs (ceres (cpp_info d2)) = libs (ceres (cpp_info d_on)) \<and>
     distinct (libs (ceres (cpp_info d2)))"
proof -
  let ?off = "c\<lparr>options := (options c)(''use_cuda'' \<mapsto> OFalse)\<rparr>"
  let ?on = "c\<lparr>options := (options c)(''use_cuda'' \<mapsto> OTrue)\<rparr>"
  let ?sfx = "if build_type (settings c) = ''Debug'' then ''-debug'' else ''''"
  let ?n = "''ceres_cuda_kernels'' @ ?sfx"
  obtain d_off where off: "package_info ?off = Inr d_off"
    using package_info_total[of ?off OFalse g sh] assms by auto
  obtain d_on where on: "package_info ?on = Inr d_on"
    using package_info_total[of ?on OTrue g sh] assms by auto
  have l_off: "libs (ceres (cpp_info d_off)) = [''ceres'' @ ?sfx]"
    using package_info_libs[OF off] by auto
  have l_on: "libs (ceres (cpp_info d_on)) = [''ceres'' @ ?sfx, ?n]"
    using package_info_libs[OF on] by auto
  have o_on: "options d_on = (options c)(''use_cuda'' \<mapsto> OTrue)" "settings d_on = settings c"
    using package_info_frame[OF on] by simp_all
  obtain d2 where d2: "package_info d_on = Inr d2"
    using package_info_total[of d_on OTrue g sh] assms o_on by auto
  have l_2: "libs (ceres (cpp_info d2)) = [''ceres'' @ ?sfx, ?n]"
    using package_info_libs[OF d2] o_on by auto
  have 1: "libs (ceres (cpp_info d_on)) = libs (ceres (cpp_info d_off)) @ [?n]"
    by (simp add: l_on l_off)
  have 2: "?n \<notin> set (libs (ceres (cpp_info d_off)))"
    by (simp add: l_off)
  have 3: "cpp_info d_on = (cpp_info d_off)\<lparr>ceres := (ceres (cpp_info d_off))
                        \<lparr>libs := libs (ceres (cpp_info d_off)) @ [?n]\<rparr>\<rparr>"
    using package_info_cuda_only_libs[OF off on] .
  have 4: "libs (ceres (cpp_info d2)) = libs (ceres (cpp_info d_on))"
    by (simp add: l_2 l_on)
  have 5: "distinct (libs (ceres (cpp_info d2)))"
    by (simp add: l_2)
  from off on 1 2 3 d2 4 5 show ?thesis by blast
qed

lemma stdcpp_library_not_pthread: "stdcpp_library s = Some l \<Longrightarrow> l \<noteq> ''pthread''"
  by (auto simp: stdcpp_library_def split: option.splits if_splits)

lemma package_info_system_libs:
  assumes "package_info c = Inr c'"
    and "os (settings c) = ''Linux'' \<or> os (settings c) = ''FreeBSD''"
  shows "\<exists>sh. options c ''shared'' = Some sh \<and>
           system_libs (ceres (cpp_info c')) =
             system_libs (ceres (cpp_info c)) @ [''m''] @
             (if truth (get_safe (options c) ''use_CXX11_threads'' (Some OTrue))
              then [''pthread''] else []) @
             (if \<not> truthy sh
              then (case stdcpp_library (settings c) of
                      None \<Rightarrow> []
                    | Some libcxx \<Rightarrow> if libcxx \<noteq> [] then [libcxx] else [])
              else [])"
  using assms
  by (auto simp: package_info_def Let_def then_do_Inr_iff get_option_Inr_iff
           split: option.splits)

lemma package_info_includedirs:
  assumes "package_info c = Inr c'"
  shows "\<exists>g. options c ''use_glog'' = Some g \<and>
           includedirs (ceres (cpp_info c')) =
             includedirs (ceres (cpp_info c)) @ [''include/ceres''] @
             (if \<not> truthy g then [''include/ceres/internal/miniglog''] else [])"
  using assms
  by (auto simp: package_info_def Let_def then_do_Inr_iff get_option_Inr_iff os_path_join_def)

theorem package_info_cuda_library_witness:
  "options (new_recipe [2, 2, 0] (linux_gcc ''Release'') Map.empty) ''use_glog'' = Some OFalse \<and>
   options (new_recipe [2, 2, 0] (linux_gcc ''Release'') Map.empty) ''shared'' = Some OFalse \<and>
   (\<exists>d_off d_on.
      package_info ((new_recipe [2, 2, 0] (linux_gcc ''Release'') Map.empty)
        \<lparr>options := (options (new_recipe [2, 2, 0] (linux_gcc ''Release'') Map.empty))
                      (''use_cuda'' \<mapsto> OFalse)\<rparr>) = Inr d_off \<and>
      package_info ((new_recipe [2, 2, 0] (linux_gcc ''Release'') Map.empty)
        \<lparr>options := (options (new_recipe [2, 2, 0] (linux_gcc ''Release'') Map.empty))
                      (''use_cuda'' \<mapsto> OTrue)\<rparr>) = Inr d_on \<and>
      length (libs (ceres (cpp_info d_on))) = length (libs (ceres (cpp_info d_off))) + 1)"
proof -
  let ?c = "new_recipe [2, 2, 0] (linux_gcc ''Release'') Map.empty"
  have g: "options ?c ''use_glog'' = Some OFalse"
    by (simp add: new_recipe_def default_options_def)
  have sh: "options ?c ''shared'' = Some OFalse"
    by (simp add: new_recipe_def default_options_def)
  from package_info_cuda_library[OF g sh] obtain d_off d_on n where
    "package_info (?c\<lparr>options := (options ?c)(''use_cuda'' \<mapsto> OFalse)\<rparr>) = Inr d_off"
    "package_info (?c\<lparr>options := (options ?c)(''use_cuda'' \<mapsto> OTrue)\<rparr>) = Inr d_on"
    "libs (ceres (cpp_info d_on)) = libs (ceres (cpp_info d_off)) @ [n]"
    by blast
  then have "\<exists>d_off d_on.
      package_info (?c\<lparr>options := (options ?c)(''use_cuda'' \<mapsto> OFalse)\<rparr>) = Inr d_off \<and>
      package_info (?c\<lparr>options := (options ?c)(''use_cuda'' \<mapsto> OTrue)\<rparr>) = Inr d_on \<and>
      length (libs (ceres (cpp_info d_on))) = length (libs (ceres (cpp_info d_off))) + 1"
    by (intro exI[of _ d_off] exI[of _ d_on]) simp
  with g sh show ?thesis by blast
qed

lemma config_options_cpp_info:
  assumes "config_options c = Inr c'" shows "cpp_info c' = cpp_info c"
  by (subst config_options_result[OF assms]) simp

lemma configure_frame:
  assumes "configure c = Inr c'"
  shows "version c' = version c" and "settings c' = settings c"
    and "cpp_info c' = cpp_info c" and "requires c' = requires c"
    and "k \<noteq> ''fPIC'' \<Longrightarrow> options c' k = options c k"
  using assms
  by (auto simp: configure_def Let_def then_do_Inr_iff get_option_Inr_iff rm_safe_def
        del_option_def)

lemma package_info_system_libs_tail:
  assumes "package_info c = Inr c'"
    and "os (settings c) = ''Linux'' \<or> os (settings c) = ''FreeBSD''"
  shows "\<exists>extra. ''pthread'' \<notin> set extra \<and>
           system_libs (ceres (cpp_info c')) =
             system_libs (ceres (cpp_info c)) @ [''m''] @
             (if truth (get_safe (options c) ''use_CXX11_threads'' (Some OTrue))
              then [''pthread''] else []) @ extra"
proof -
  from package_info_system_libs[OF assms] obtain sh where
    sl: "system_libs (ceres (cpp_info c')) =
             system_libs (ceres (cpp_info c)) @ [''m''] @
             (if truth (get_safe (options c) ''use_CXX11_threads'' (Some OTrue))
              then [''pthread''] else []) @
             (if \<not> truthy sh
              then (case stdcpp_library (settings c) of
                      None \<Rightarrow> []
                    | Some libcxx \<Rightarrow> if libcxx \<noteq> [] then [libcxx] else [])
              else [])" by blast
  have "''pthread'' \<notin> set (if \<not> truthy sh
              then (case stdcpp_library (settings c) of
                      None \<Rightarrow> []
                    | Some libcxx \<Rightarrow> if libcxx \<noteq> [] then [libcxx] else [])
              else [])"
  proof (cases "truthy sh")
    case True
    then show ?thesis by simp
  next
    case False
    show ?thesis
    proof (cases "stdcpp_library (settings c)")
      case None
      with False show ?thesis by simp
    next
      case (Some l)
      from stdcpp_library_not_pthread[OF Some] have "l \<noteq> ''pthread''" .
      with Some False show ?thesis by auto
    qed
  qed
  with sl show ?thesis by blast
qed

text \<open>
  C9. On Linux and FreeBSD, with the options resolved by \<^verbatim>\<open>config_options\<close> and
  \<^verbatim>\<open>configure\<close> from a complete option set: for every version greater than or equal to
  2.0 the option \<^verbatim>\<open>use_CXX11_threads\<close> is gone, its lookup yields the default
  \<^verbatim>\<open>True\<close>, and \<^verbatim>\<open>pthread\<close> is among the system libraries of the descriptor; for every
  version below 2.0, \<^verbatim>\<open>pthread\<close> is added exactly when \<^verbatim>\<open>use_CXX11_threads\<close> is enabled.
\<close>

theorem package_info_pthread:
  assumes "os (settings c) = ''Linux'' \<or> os (settings c) = ''FreeBSD''"
    and "complete_options (options c)"
  shows "\<exists>c1 c2 d. config_options c = Inr c1 \<and> configure c1 = Inr c2 \<and>
           package_info c2 = Inr d \<and>
           (version_ge (version c) [2, 0] \<longrightarrow>
              options c2 ''use_CXX11_threads'' = None \<and>
              get_safe (options c2) ''use_CXX11_threads'' (Some OTrue) = Some OTrue \<and>
              ''pthread'' \<in> set (system_libs (ceres (cpp_info d)))) \<and>
           (\<not> version_ge (version c) [2, 0] \<longrightarrow>
              ''pthread'' \<notin> set (system_libs (ceres (cpp_info c))) \<longrightarrow>
              (''pthread'' \<in> set (system_libs (ceres (cpp_info d))) \<longleftrightarrow>
               (\<exists>v. options c ''use_CXX11_threads'' = Some v \<and> truthy v)))"
proof -
  have p: "\<And>k. k \<in> fst ` set declared_options \<Longrightarrow> \<exists>v. options c k = Some v"
    using assms(2) complete_options_present by blast
  obtain a where a: "options c ''shared'' = Some a"
    using p[of "''shared''"] by (auto simp: declared_options_def)
  obtain b where b: "options c ''use_gflags'' = Some b"
    using p[of "''use_gflags''"] by (auto simp: declared_options_def)
  obtain g where g: "options c ''use_glog'' = Some g"
    using p[of "''use_glog''"] by (auto simp: declared_options_def)
  obtain u where u: "options c ''use_cuda'' = Some u"
    using p[of "''use_cuda''"] by (auto simp: declared_options_def)
  obtain t where t: "options c ''use_CXX11_threads'' = Some t"
    using p[of "''use_CXX11_threads''"] by (auto simp: declared_options_def)
  obtain c1 where c1: "config_options c = Inr c1"
    using config_options_total[OF assms(2)] by blast
  have c1o: "options c1 ''shared'' = Some a" "options c1 ''use_gflags'' = Some b"
    "options c1 ''use_glog'' = Some g" "options c1 ''use_cuda'' = Some u"
    using config_options_frame(3)[OF c1] a b g u by simp_all
  have c1t: "options c1 ''use_CXX11_threads'' =
               (if version_ge (version c) [2, 0] then None else Some t)"
    by (subst config_options_result[OF c1]) (simp add: t)
  obtain c2 where c2: "configure c1 = Inr c2"
    using configure_total[OF c1o(1) c1o(2)] by blast
  have c2o: "options c2 ''shared'' = Some a" "options c2 ''use_glog'' = Some g"
    "options c2 ''use_cuda'' = Some u"
    "options c2 ''use_CXX11_threads'' = (if version_ge (version c) [2, 0] then None else Some t)"
    using configure_frame(5)[OF c2] c1o c1t by simp_all
  have c2s: "settings c2 = settings c" "cpp_info c2 = cpp_info c"
    using configure_frame(2,3)[OF c2] config_options_frame(2)[OF c1]
      config_options_cpp_info[OF c1] by simp_all
  obtain d where d: "package_info c2 = Inr d"
    using package_info_total[OF c2o(3) c2o(2) c2o(1)] by blast
  from package_info_system_libs_tail[OF d] assms(1) c2s
  obtain extra where ex: "''pthread'' \<notin> set extra"
    and sl: "system_libs (ceres (cpp_info d)) =
             system_libs (ceres (cpp_info c)) @ [''m''] @
             (if truth (get_safe (options c2) ''use_CXX11_threads'' (Some OTrue))
              then [''pthread''] else []) @ extra"
    by auto
  have new: "options c2 ''use_CXX11_threads'' = None \<and>
              get_safe (options c2) ''use_CXX11_threads'' (Some OTrue) = Some OTrue \<and>
              ''pthread'' \<in> set (system_libs (ceres (cpp_info d)))"
    if ge: "version_ge (version c) [2, 0]"
  proof -
    have n: "options c2 ''use_CXX11_threads'' = None" using c2o(4) ge by simp
    have gs: "get_safe (options c2) ''use_CXX11_threads'' (Some OTrue) = Some OTrue"
      by (simp add: get_safe_def n)
    have "''pthread'' \<in> set (system_libs (ceres (cpp_info d)))"
      by (simp add: sl gs)
    with n gs show ?thesis by blast
  qed
  have old: "''pthread'' \<in> set (system_libs (ceres (cpp_info d))) \<longleftrightarrow>
               (\<exists>v. options c ''use_CXX11_threads'' = Some v \<and> truthy v)"
    if lt: "\<not> version_ge (version c) [2, 0]"
      and fresh: "''pthread'' \<notin> set (system_libs (ceres (cpp_info c)))"
  proof -
    have n: "options c2 ''use_CXX11_threads'' = Some t" using c2o(4) lt by simp
    have gs: "get_safe (options c2) ''use_CXX11_threads'' (Some OTrue) = Some t"
      by (simp add: get_safe_def n)
    have "''pthread'' \<in> set (system_libs (ceres (cpp_info d))) \<longleftrightarrow> truthy t"
      using fresh ex by (simp add: sl gs)
    then show ?thesis by (simp add: t)
  qed
  from c1 c2 d new old show ?thesis by blast
qed

theorem package_info_pthread_witness:
  "(os (settings (new_recipe [2, 2, 0] (linux_gcc ''Release'') Map.empty)) = ''Linux'' \<or>
    os (settings (new_recipe [2, 2, 0] (linux_gcc ''Release'') Map.empty)) = ''FreeBSD'') \<and>
   complete_options (options (new_recipe [2, 2, 0] (linux_gcc ''Release'') Map.empty)) \<and>
   version_ge (version (new_recipe [2, 2, 0] (linux_gcc ''Release'') Map.empty)) [2, 0] \<and>
   (\<exists>c1 c2 d. config_options (new_recipe [2, 2, 0] (linux_gcc ''Release'') Map.empty) = Inr c1 \<and>
      configure c1 = Inr c2 \<and> package_info c2 = Inr d \<and>
      ''pthread'' \<in> set (system_libs (ceres (cpp_info d)))) \<and>
   (os (settings (new_recipe [1, 14, 0] (linux_gcc ''Release'') [''use_CXX11_threads'' \<mapsto> OTrue]))
      = ''Linux'' \<or>
    os (settings (new_recipe [1, 14, 0] (linux_gcc ''Release'') [''use_CXX11_threads'' \<mapsto> OTrue]))
      = ''FreeBSD'') \<and>
   complete_options
     (options (new_recipe [1, 14, 0] (linux_gcc ''Release'') [''use_CXX11_threads'' \<mapsto> OTrue])) \<and>
   \<not> version_ge
     (version (new_recipe [1, 14, 0] (linux_gcc ''Release'') [''use_CXX11_threads'' \<mapsto> OTrue]))
     [2, 0] \<and>
   (\<exists>c1 c2 d. config_options
        (new_recipe [1, 14, 0] (linux_gcc ''Release'') [''use_CXX11_threads'' \<mapsto> OTrue]) = Inr c1 \<and>
      configure c1 = Inr c2 \<and> package_info c2 = Inr d \<and>
      ''pthread'' \<in> set (system_libs (ceres (cpp_info d))))"
proof -
  let ?c = "new_recipe [2, 2, 0] (linux_gcc ''Release'') Map.empty"
  let ?o = "new_recipe [1, 14, 0] (linux_gcc ''Release'') [''use_CXX11_threads'' \<mapsto> OTrue]"
  have os: "os (settings ?c) = ''Linux'' \<or> os (settings ?c) = ''FreeBSD''"
    by (simp add: new_recipe_def linux_gcc_def)
  have k: "complete_options (options ?c)"
    by (simp add: new_recipe_def complete_default_options)
  have v: "version_ge (version ?c) [2, 0]"
    by (simp add: new_recipe_def version_ge_def version_lt_def nonzero_items_def)
  have os': "os (settings ?o) = ''Linux'' \<or> os (settings ?o) = ''FreeBSD''"
    by (simp add: new_recipe_def linux_gcc_def)
  have k': "complete_options (options ?o)"
    by (simp add: new_recipe_def complete_options_def default_options_def declared_options_def)
  have v': "\<not> version_ge (version ?o) [2, 0]"
    by (simp add: new_recipe_def version_ge_def version_lt_def nonzero_items_def)
  have f': "''pthread'' \<notin> set (system_libs (ceres (cpp_info ?o)))"
    by (simp add: new_recipe_def new_component_def)
  have t': "\<exists>v. options ?o ''use_CXX11_threads'' = Some v \<and> truthy v"
    by (simp add: new_recipe_def)
  have A: "\<exists>c1 c2 d. config_options ?c = Inr c1 \<and>
      configure c1 = Inr c2 \<and> package_info c2 = Inr d \<and>
      ''pthread'' \<in> set (system_libs (ceres (cpp_info d)))"
    using package_info_pthread[OF os k] v by blast
  have B: "\<exists>c1 c2 d. config_options ?o = Inr c1 \<and>
      configure c1 = Inr c2 \<and> package_info c2 = Inr d \<and>
      ''pthread'' \<in> set (system_libs (ceres (cpp_info d)))"
    using package_info_pthread[OF os' k'] v' f' t' by blast
  from os k v A os' k' v' B show ?thesis by blast
qed

subsection \<open>The deprecated option\<close>

lemma rm_safe_eq: "rm_safe k opts = opts(k := None)"
  by (auto simp: rm_safe_def del_option_def)

lemma configure_result:
  assumes "options c ''shared'' = Some sh" and "options c ''use_gflags'' = Some gf"
  shows "configure c =
           Inr (c\<lparr>options := (if truthy sh then (options c)(''fPIC'' := None) else options c),
                  output_warnings :=
                    (if gf \<noteq> ODeprecated
                     then output_warnings c @ [''use_gflags option is deprecated'']
                     else output_warnings c)\<rparr>)"
  using assms
  by (simp add: configure_def Let_def then_do_def get_option_def rm_safe_eq)

text \<open>
  C8. Whenever \<^verbatim>\<open>use_gflags\<close> has a value other than \<^verbatim>\<open>"deprecated"\<close>, \<^verbatim>\<open>configure\<close>
  logs one warning and returns normally; when the option is left at \<^verbatim>\<open>"deprecated"\<close> it
  returns normally and logs nothing.
\<close>

theorem configure_deprecation_warning:
  assumes "options c ''shared'' = Some sh" and "options c ''use_gflags'' = Some gf"
  shows "\<exists>c'. configure c = Inr c' \<and>
           (gf \<noteq> ODeprecated \<longrightarrow>
              output_warnings c' = output_warnings c @ [''use_gflags option is deprecated'']) \<and>
           (gf = ODeprecated \<longrightarrow> output_warnings c' = output_warnings c)"
  by (simp add: configure_result[OF assms])

theorem configure_deprecation_warning_witness:
  "options (new_recipe [2, 2, 0] (linux_gcc ''Release'') [''use_gflags'' \<mapsto> OTrue]) ''shared''
     = Some OFalse \<and>
   options (new_recipe [2, 2, 0] (linux_gcc ''Release'') [''use_gflags'' \<mapsto> OTrue]) ''use_gflags''
     = Some OTrue \<and>
   (\<exists>c'. configure (new_recipe [2, 2, 0] (linux_gcc ''Release'') [''use_gflags'' \<mapsto> OTrue])
            = Inr c' \<and>
      output_warnings c' = [''use_gflags option is deprecated'']) \<and>
   options (new_recipe [2, 2, 0] (linux_gcc ''Release'') Map.empty) ''shared'' = Some OFalse \<and>
   options (new_recipe [2, 2, 0] (linux_gcc ''Release'') Map.empty) ''use_gflags''
     = Some ODeprecated \<and>
   (\<exists>c'. configure (new_recipe [2, 2, 0] (linux_gcc ''Release'') Map.empty) = Inr c' \<and>
      output_warnings c' = [])"
proof -
  let ?c = "new_recipe [2, 2, 0] (linux_gcc ''Release'') [''use_gflags'' \<mapsto> OTrue]"
  let ?d = "new_recipe [2, 2, 0] (linux_gcc ''Release'') Map.empty"
  have s: "options ?c ''shared'' = Some OFalse"
    by (simp add: new_recipe_def default_options_def map_add_def)
  have g: "options ?c ''use_gflags'' = Some OTrue"
    by (simp add: new_recipe_def)
  have w: "output_warnings ?c = []" by (simp add: new_recipe_def)
  have s': "options ?d ''shared'' = Some OFalse"
    by (simp add: new_recipe_def default_options_def)
  have g': "options ?d ''use_gflags'' = Some ODeprecated"
    by (simp add: new_recipe_def default_options_def)
  have w': "output_warnings ?d = []" by (simp add: new_recipe_def)
  have A: "\<exists>c'. configure ?c = Inr c' \<and> output_warnings c' = [''use_gflags option is deprecated'']"
    using configure_deprecation_warning[OF s g] w by auto
  have B: "\<exists>c'. configure ?d = Inr c' \<and> output_warnings c' = []"
    using configure_deprecation_warning[OF s' g'] w' by auto
  from s g A s' g' B show ?thesis by blast
qed

subsection \<open>The package id\<close>

lemma package_id_result:
  assumes "options c ''use_gflags'' = Some gf"
  shows "package_id c =
           Inr \<lparr>info_settings = settings c,
                info_options = (options c)(''use_gflags'' := None),
                info_requires = requires c\<rparr>"
  using assms by (simp add: package_id_def info_def then_do_def del_option_def)

text \<open>
  C10. The package id is computed from what \<^verbatim>\<open>package_id\<close> leaves in \<^verbatim>\<open>self.info\<close>. Two
  configurations that differ only in the value of \<^verbatim>\<open>use_gflags\<close> leave the same
  information there, with \<^verbatim>\<open>use_gflags\<close> deleted from it, so the package id computed
  from it is the same for both.
\<close>

theorem package_id_independent_of_use_gflags:
  assumes "settings c2 = settings c1" and "requires c2 = requires c1"
    and "\<forall>k. k \<noteq> ''use_gflags'' \<longrightarrow> options c2 k = options c1 k"
    and "options c1 ''use_gflags'' = Some g1" and "options c2 ''use_gflags'' = Some g2"
  shows "package_id c1 = package_id c2 \<and>
         (\<exists>i. package_id c1 = Inr i \<and> info_options i ''use_gflags'' = None)"
proof -
  have "(options c1)(''use_gflags'' := None) = (options c2)(''use_gflags'' := None)"
    using assms(3) by (auto simp: fun_eq_iff)
  then show ?thesis
    by (simp add: package_id_result[OF assms(4)] package_id_result[OF assms(5)] assms(1,2))
qed

theorem package_id_independent_of_use_gflags_witness:
  "package_id (new_recipe [2, 2, 0] (linux_gcc ''Release'') Map.empty) =
   package_id (new_recipe [2, 2, 0] (linux_gcc ''Release'') [''use_gflags'' \<mapsto> OTrue])"
proof -
  let ?c1 = "new_recipe [2, 2, 0] (linux_gcc ''Release'') Map.empty"
  let ?c2 = "new_recipe [2, 2, 0] (linux_gcc ''Release'') [''use_gflags'' \<mapsto> OTrue]"
  have 1: "settings ?c2 = settings ?c1" by (simp add: new_recipe_def)
  have 2: "requires ?c2 = requires ?c1" by (simp add: new_recipe_def)
  have 3: "\<forall>k. k \<noteq> ''use_gflags'' \<longrightarrow> options ?c2 k = options ?c1 k"
    by (simp add: new_recipe_def map_add_def)
  have 4: "options ?c1 ''use_gflags'' = Some ODeprecated"
    by (simp add: new_recipe_def default_options_def)
  have 5: "options ?c2 ''use_gflags'' = Some OTrue"
    by (simp add: new_recipe_def)
  from package_id_independent_of_use_gflags[OF 1 2 3 4 5] show ?thesis by blast
qed

subsection \<open>Requirements and the configuration of the example\<close>

lemma requirements_result:
  assumes "options c ''use_glog'' = Some g"
  shows "requirements c =
           Inr (c\<lparr>requires :=
                  requires c @
                  [\<lparr>ref = ''eigen/3.4.0'', transitive_headers = Some True,
                    transitive_libs = None\<rparr>] @
                  (if truthy g
                   then [\<lparr>ref = ''glog/0.6.0'', transitive_headers = Some True,
                          transitive_libs = Some True\<rparr>]
                   else []) @
                  (if truth (get_safe (options c) ''use_TBB'' None)
                   then [\<lparr>ref = ''onetbb/2020.3'', transitive_headers = None,
                          transitive_libs = None\<rparr>]
                   else [])\<rparr>)"
  using assms
  by (simp add: requirements_def Let_def then_do_def get_option_def)

lemma version_2_2_0:
  "version_ge [2, 2, 0] [2, 2, 0]" "version_ge [2, 2, 0] [2, 0]"
  by (simp_all add: version_ge_def version_lt_def nonzero_items_def)

lemma example_recipe_sel:
  "version (example_recipe s) = [2, 2, 0]"
  "settings (example_recipe s) = s"
  "cpp_info (example_recipe s) = \<lparr>properties = Map.empty, names = Map.empty, ceres = new_component\<rparr>"
  "requires (example_recipe s) = []"
  "options (example_recipe s) ''use_glog'' = Some OFalse"
  "options (example_recipe s) ''use_cuda'' = Some OTrue"
  "options (example_recipe s) ''shared'' = Some OFalse"
  "options (example_recipe s) ''use_gflags'' = Some ODeprecated"
  "options (example_recipe s) ''use_TBB'' = Some OFalse"
  by (simp_all add: example_recipe_def example_overlay_def new_recipe_def default_options_def
        map_add_def)

lemma complete_example_recipe: "complete_options (options (example_recipe s))"
  by (simp add: example_recipe_def example_overlay_def new_recipe_def complete_options_def
        default_options_def declared_options_def)

lemma config_options_requires:
  assumes "config_options c = Inr c'" shows "requires c' = requires c"
  by (subst config_options_result[OF assms]) simp

subsection \<open>Translation of the options into build variables\<close>

lemma items_lt_trans: "items_lt a b \<Longrightarrow> items_lt b c \<Longrightarrow> items_lt a c"
proof (induction a b arbitrary: c rule: items_lt.induct)
  case (2 y ys)
  then show ?case by (cases c) simp_all
next
  case (4 x xs y ys)
  then show ?case by (cases c) auto
qed simp_all

lemma version_lt_trans: "version_lt a b \<Longrightarrow> version_lt b c \<Longrightarrow> version_lt a c"
  unfolding version_lt_def by (rule items_lt_trans)

lemma thresholds:
  "version_lt [2, 0, 0] [2, 1, 0]" "version_lt [2, 1, 0] [2, 2, 0]"
  "version_lt [2, 0, 0] [2, 2, 0]"
  by (simp_all add: version_lt_def nonzero_items_def)

lemma version_ge_2_0: "version_ge v [2, 0] = version_ge v [2, 0, 0]"
  by (simp add: version_ge_def version_lt_def nonzero_items_def)

lemma map_sum_then_do:
  "map_sum id g (then_do r f) = then_do r (\<lambda>x. map_sum id g (f x))"
  by (cases r) (simp_all add: then_do_def)

lemma generate_writes:
  "map_sum id (\<lambda>c'. c'\<lparr>toolchain := t\<rparr>) (generate c) =
   map_sum id (\<lambda>c'. c\<lparr>toolchain := t\<rparr>) (generate c)"
  by (simp add: generate_def Let_def map_sum_then_do
        if_distrib[where f="map_sum id (\<lambda>c'. c'\<lparr>toolchain := t\<rparr>)"]
        if_distrib[where f="map_sum id (\<lambda>c'. c\<lparr>toolchain := t\<rparr>)"]
        split del: if_split cong: if_cong)

lemma generate_frame:
  assumes "generate c = Inr c'"
  shows "c' = c\<lparr>toolchain := toolchain c'\<rparr>"
proof -
  from generate_writes[of "toolchain c'" c] assms
  have "c'\<lparr>toolchain := toolchain c'\<rparr> = c\<lparr>toolchain := toolchain c'\<rparr>" by simp
  then show ?thesis by simp
qed

lemma generate_reads:
  assumes "options c1 = options c2" and "version c1 = version c2"
    and "settings c1 = settings c2"
  shows "map_sum id toolchain (generate c1) = map_sum id toolchain (generate c2)"
  using assms
  by (simp add: generate_def Let_def map_sum_then_do if_distrib[where f="map_sum id toolchain"]
        split del: if_split cong: if_cong)

lemma then_do_weak_cong: "r = r' \<Longrightarrow> then_do r f = then_do r' f"
  by simp

lemma version_ranges:
  obtains (old) "version_lt v [2, 0, 0]" "version_lt v [2, 1, 0]" "version_lt v [2, 2, 0]"
  | (v20) "\<not> version_lt v [2, 0, 0]" "version_lt v [2, 1, 0]" "version_lt v [2, 2, 0]"
  | (v21) "\<not> version_lt v [2, 0, 0]" "\<not> version_lt v [2, 1, 0]" "version_lt v [2, 2, 0]"
  | (v22) "\<not> version_lt v [2, 0, 0]" "\<not> version_lt v [2, 1, 0]" "\<not> version_lt v [2, 2, 0]"
  using version_lt_trans[OF _ thresholds(1), of v] version_lt_trans[OF _ thresholds(2), of v]
  by blast

lemma generate_reads_always:
  assumes g: "generate c = Inr c'"
  obtains gl sc bl sp where "options c ''use_glog'' = Some gl"
    and "options c ''use_schur_specializations'' = Some sc"
    and "options c ''use_custom_blas'' = Some bl"
    and "options c ''use_eigen_sparse'' = Some sp"
proof -
  obtain gl where 1: "options c ''use_glog'' = Some gl"
    using g by (cases "options c ''use_glog''")
      (simp_all add: generate_def get_option_def then_do_Inl then_do_Inr
         del: One_nat_def cong: then_do_weak_cong)
  obtain sc where 2: "options c ''use_schur_specializations'' = Some sc"
    using g 1 by (cases "options c ''use_schur_specializations''")
      (simp_all add: generate_def get_option_def then_do_Inl then_do_Inr
         del: One_nat_def cong: then_do_weak_cong)
  obtain bl where 3: "options c ''use_custom_blas'' = Some bl"
    using g 1 2 by (cases "options c ''use_custom_blas''")
      (simp_all add: generate_def get_option_def then_do_Inl then_do_Inr
         del: One_nat_def cong: then_do_weak_cong)
  obtain sp where 4: "options c ''use_eigen_sparse'' = Some sp"
    using g 1 2 3 by (cases "options c ''use_eigen_sparse''")
      (simp_all add: generate_def get_option_def then_do_Inl then_do_Inr
         del: One_nat_def cong: then_do_weak_cong)
  from 1 2 3 4 show ?thesis by (rule that)
qed

lemma generate_old:
  assumes g: "generate c = Inr c'"
    and r: "version_lt (version c) [2, 0, 0]" "version_lt (version c) [2, 1, 0]"
      "version_lt (version c) [2, 2, 0]"
  shows "toolchain c' ''USE_CUDA'' = None"
    and "toolchain c' ''CUDA'' = None"
    and "\<exists>x. options c ''use_CXX11'' = Some x \<and> toolchain c' ''CXX11'' = Some (COption x)"
    and "\<exists>t. options c ''use_TBB'' = Some t \<and> toolchain c' ''TBB'' = Some (COption t)"
    and "\<exists>h. options c ''use_CXX11_threads'' = Some h \<and> toolchain c' ''CXX11_THREADS'' = Some (COption h)"
    and "toolchain c' ''LIB_SUFFIX'' = Some (CStr [])"
proof -
  obtain gl sc bl sp where o: "options c ''use_glog'' = Some gl"
    "options c ''use_schur_specializations'' = Some sc"
    "options c ''use_custom_blas'' = Some bl"
    "options c ''use_eigen_sparse'' = Some sp"
    using g by (rule generate_reads_always)
  obtain x where x: "options c ''use_CXX11'' = Some x"
    using g o r  by (cases "options c ''use_CXX11''")
      (simp_all add: generate_def get_option_def then_do_Inl then_do_Inr version_ge_def
         del: One_nat_def cong: then_do_weak_cong)
  obtain t where t: "options c ''use_TBB'' = Some t"
    using g o r x by (cases "options c ''use_TBB''")
      (simp_all add: generate_def get_option_def then_do_Inl then_do_Inr version_ge_def
         del: One_nat_def cong: then_do_weak_cong)
  obtain h where h: "options c ''use_CXX11_threads'' = Some h"
    using g o r x t by (cases "options c ''use_CXX11_threads''")
      (simp_all add: generate_def get_option_def then_do_Inl then_do_Inr version_ge_def
         del: One_nat_def cong: then_do_weak_cong)
  have c': "c' = projr (generate c)" using g by simp
  show "toolchain c' ''USE_CUDA'' = None"
    unfolding c'
    by (simp add: generate_def Let_def get_option_def then_do_Inr version_ge_def o x t h r
          del: One_nat_def cong: then_do_weak_cong)
  show "toolchain c' ''CUDA'' = None"
    unfolding c'
    by (simp add: generate_def Let_def get_option_def then_do_Inr version_ge_def o x t h r
          del: One_nat_def cong: then_do_weak_cong)
  show "\<exists>x. options c ''use_CXX11'' = Some x \<and> toolchain c' ''CXX11'' = Some (COption x)"
    unfolding c'
    by (simp add: generate_def Let_def get_option_def then_do_Inr version_ge_def o x t h r
          del: One_nat_def cong: then_do_weak_cong)
  show "\<exists>t. options c ''use_TBB'' = Some t \<and> toolchain c' ''TBB'' = Some (COption t)"
    unfolding c'
    by (simp add: generate_def Let_def get_option_def then_do_Inr version_ge_def o x t h r
          del: One_nat_def cong: then_do_weak_cong)
  show "\<exists>h. options c ''use_CXX11_threads'' = Some h \<and> toolchain c' ''CXX11_THREADS'' = Some (COption h)"
    unfolding c'
    by (simp add: generate_def Let_def get_option_def then_do_Inr version_ge_def o x t h r
          del: One_nat_def cong: then_do_weak_cong)
  show "toolchain c' ''LIB_SUFFIX'' = Some (CStr [])"
    unfolding c'
    by (simp add: generate_def Let_def get_option_def then_do_Inr version_ge_def o x t h r
          del: One_nat_def cong: then_do_weak_cong)
qed

lemma generate_v20:
  assumes g: "generate c = Inr c'"
    and r: "\<not> version_lt (version c) [2, 0, 0]" "version_lt (version c) [2, 1, 0]"
      "version_lt (version c) [2, 2, 0]"
  shows "toolchain c' ''USE_CUDA'' = None"
    and "toolchain c' ''CUDA'' = None"
    and "toolchain c' ''CXX11'' = None"
    and "toolchain c' ''TBB'' = None"
    and "toolchain c' ''CXX11_THREADS'' = None"
    and "toolchain c' ''LIB_SUFFIX'' = Some (CStr [])"
proof -
  obtain gl sc bl sp where o: "options c ''use_glog'' = Some gl"
    "options c ''use_schur_specializations'' = Some sc"
    "options c ''use_custom_blas'' = Some bl"
    "options c ''use_eigen_sparse'' = Some sp"
    using g by (rule generate_reads_always)
  have c': "c' = projr (generate c)" using g by simp
  show "toolchain c' ''USE_CUDA'' = None"
    unfolding c'
    by (simp add: generate_def Let_def get_option_def then_do_Inr version_ge_def o  r
          del: One_nat_def cong: then_do_weak_cong)
  show "toolchain c' ''CUDA'' = None"
    unfolding c'
    by (simp add: generate_def Let_def get_option_def then_do_Inr version_ge_def o  r
          del: One_nat_def cong: then_do_weak_cong)
  show "toolchain c' ''CXX11'' = None"
    unfolding c'
    by (simp add: generate_def Let_def get_option_def then_do_Inr version_ge_def o  r
          del: One_nat_def cong: then_do_weak_cong)
  show "toolchain c' ''TBB'' = None"
    unfolding c'
    by (simp add: generate_def Let_def get_option_def then_do_Inr version_ge_def o  r
          del: One_nat_def cong: then_do_weak_cong)
  show "toolchain c' ''CXX11_THREADS'' = None"
    unfolding c'
    by (simp add: generate_def Let_def get_option_def then_do_Inr version_ge_def o  r
          del: One_nat_def cong: then_do_weak_cong)
  show "toolchain c' ''LIB_SUFFIX'' = Some (CStr [])"
    unfolding c'
    by (simp add: generate_def Let_def get_option_def then_do_Inr version_ge_def o  r
          del: One_nat_def cong: then_do_weak_cong)
qed

lemma generate_v21:
  assumes g: "generate c = Inr c'"
    and r: "\<not> version_lt (version c) [2, 0, 0]" "\<not> version_lt (version c) [2, 1, 0]"
      "version_lt (version c) [2, 2, 0]"
  shows "toolchain c' ''USE_CUDA'' = None"
    and "\<exists>u. options c ''use_cuda'' = Some u \<and> toolchain c' ''CUDA'' = Some (COption u)"
    and "toolchain c' ''CXX11'' = None"
    and "toolchain c' ''TBB'' = None"
    and "toolchain c' ''CXX11_THREADS'' = None"
    and "toolchain c' ''LIB_SUFFIX'' = None"
proof -
  obtain gl sc bl sp where o: "options c ''use_glog'' = Some gl"
    "options c ''use_schur_specializations'' = Some sc"
    "options c ''use_custom_blas'' = Some bl"
    "options c ''use_eigen_sparse'' = Some sp"
    using g by (rule generate_reads_always)
  obtain u where u: "options c ''use_cuda'' = Some u"
    using g o r  by (cases "options c ''use_cuda''")
      (simp_all add: generate_def get_option_def then_do_Inl then_do_Inr version_ge_def
         del: One_nat_def cong: then_do_weak_cong)
  have c': "c' = projr (generate c)" using g by simp
  show "toolchain c' ''USE_CUDA'' = None"
    unfolding c'
    by (simp add: generate_def Let_def get_option_def then_do_Inr version_ge_def o u r
          del: One_nat_def cong: then_do_weak_cong)
  show "\<exists>u. options c ''use_cuda'' = Some u \<and> toolchain c' ''CUDA'' = Some (COption u)"
    unfolding c'
    by (simp add: generate_def Let_def get_option_def then_do_Inr version_ge_def o u r
          del: One_nat_def cong: then_do_weak_cong)
  show "toolchain c' ''CXX11'' = None"
    unfolding c'
    by (simp add: generate_def Let_def get_option_def then_do_Inr version_ge_def o u r
          del: One_nat_def cong: then_do_weak_cong)
  show "toolchain c' ''TBB'' = None"
    unfolding c'
    by (simp add: generate_def Let_def get_option_def then_do_Inr version_ge_def o u r
          del: One_nat_def cong: then_do_weak_cong)
  show "toolchain c' ''CXX11_THREADS'' = None"
    unfolding c'
    by (simp add: generate_def Let_def get_option_def then_do_Inr version_ge_def o u r
          del: One_nat_def cong: then_do_weak_cong)
  show "toolchain c' ''LIB_SUFFIX'' = None"
    unfolding c'
    by (simp add: generate_def Let_def get_option_def then_do_Inr version_ge_def o u r
          del: One_nat_def cong: then_do_weak_cong)
qed

lemma generate_v22:
  assumes g: "generate c = Inr c'"
    and r: "\<not> version_lt (version c) [2, 0, 0]" "\<not> version_lt (version c) [2, 1, 0]"
      "\<not> version_lt (version c) [2, 2, 0]"
  shows "\<exists>u. options c ''use_cuda'' = Some u \<and> toolchain c' ''USE_CUDA'' = Some (COption u)"
    and "toolchain c' ''CUDA'' = None"
    and "toolchain c' ''CXX11'' = None"
    and "toolchain c' ''TBB'' = None"
    and "toolchain c' ''CXX11_THREADS'' = None"
    and "toolchain c' ''LIB_SUFFIX'' = None"
proof -
  obtain gl sc bl sp where o: "options c ''use_glog'' = Some gl"
    "options c ''use_schur_specializations'' = Some sc"
    "options c ''use_custom_blas'' = Some bl"
    "options c ''use_eigen_sparse'' = Some sp"
    using g by (rule generate_reads_always)
  obtain u where u: "options c ''use_cuda'' = Some u"
    using g o r  by (cases "options c ''use_cuda''")
      (simp_all add: generate_def get_option_def then_do_Inl then_do_Inr version_ge_def
         del: One_nat_def cong: then_do_weak_cong)
  have c': "c' = projr (generate c)" using g by simp
  show "\<exists>u. options c ''use_cuda'' = Some u \<and> toolchain c' ''USE_CUDA'' = Some (COption u)"
    unfolding c'
    by (simp add: generate_def Let_def get_option_def then_do_Inr version_ge_def o u r
          del: One_nat_def cong: then_do_weak_cong)
  show "toolchain c' ''CUDA'' = None"
    unfolding c'
    by (simp add: generate_def Let_def get_option_def then_do_Inr version_ge_def o u r
          del: One_nat_def cong: then_do_weak_cong)
  show "toolchain c' ''CXX11'' = None"
    unfolding c'
    by (simp add: generate_def Let_def get_option_def then_do_Inr version_ge_def o u r
          del: One_nat_def cong: then_do_weak_cong)
  show "toolchain c' ''TBB'' = None"
    unfolding c'
    by (simp add: generate_def Let_def get_option_def then_do_Inr version_ge_def o u r
          del: One_nat_def cong: then_do_weak_cong)
  show "toolchain c' ''CXX11_THREADS'' = None"
    unfolding c'
    by (simp add: generate_def Let_def get_option_def then_do_Inr version_ge_def o u r
          del: One_nat_def cong: then_do_weak_cong)
  show "toolchain c' ''LIB_SUFFIX'' = None"
    unfolding c'
    by (simp add: generate_def Let_def get_option_def then_do_Inr version_ge_def o u r
          del: One_nat_def cong: then_do_weak_cong)
qed

text \<open>
  C6. The translation is gated by the version. \<^verbatim>\<open>use_cuda\<close> is written to \<^verbatim>\<open>USE_CUDA\<close> for
  versions from 2.2.0 on, to \<^verbatim>\<open>CUDA\<close> for versions from 2.1.0 up to but not including
  2.2.0, and to no variable below 2.1.0. The threading options are written to the legacy
  variables \<^verbatim>\<open>CXX11\<close>, \<^verbatim>\<open>TBB\<close> and \<^verbatim>\<open>CXX11_THREADS\<close> below 2.0.0 and to nothing from 2.0.0
  on. The variables \<^verbatim>\<open>TBB\<close>, \<^verbatim>\<open>LIB_SUFFIX\<close>, \<^verbatim>\<open>CUDA\<close> and \<^verbatim>\<open>USE_CUDA\<close> are present in
  exactly one combination for each of the four ranges below 2.0.0, from 2.0.0, from 2.1.0
  and from 2.2.0, so the four ranges have four different sets of variable names.
\<close>

theorem generate_version_gated:
  assumes "generate c = Inr c'"
  shows "(version_ge (version c) [2, 2, 0] \<longrightarrow>
            (\<exists>u. options c ''use_cuda'' = Some u \<and>
                  toolchain c' ''USE_CUDA'' = Some (COption u)) \<and>
            toolchain c' ''CUDA'' = None) \<and>
         (version_ge (version c) [2, 1, 0] \<and> version_lt (version c) [2, 2, 0] \<longrightarrow>
            (\<exists>u. options c ''use_cuda'' = Some u \<and>
                  toolchain c' ''CUDA'' = Some (COption u)) \<and>
            toolchain c' ''USE_CUDA'' = None) \<and>
         (version_lt (version c) [2, 1, 0] \<longrightarrow>
            toolchain c' ''CUDA'' = None \<and> toolchain c' ''USE_CUDA'' = None) \<and>
         (version_lt (version c) [2, 0, 0] \<longrightarrow>
            (\<exists>x. options c ''use_CXX11'' = Some x \<and>
                  toolchain c' ''CXX11'' = Some (COption x)) \<and>
            (\<exists>t. options c ''use_TBB'' = Some t \<and>
                  toolchain c' ''TBB'' = Some (COption t)) \<and>
            (\<exists>h. options c ''use_CXX11_threads'' = Some h \<and>
                  toolchain c' ''CXX11_THREADS'' = Some (COption h))) \<and>
         (version_ge (version c) [2, 0, 0] \<longrightarrow>
            toolchain c' ''CXX11'' = None \<and> toolchain c' ''TBB'' = None \<and>
            toolchain c' ''CXX11_THREADS'' = None) \<and>
         (toolchain c' ''TBB'' \<noteq> None \<longleftrightarrow> version_lt (version c) [2, 0, 0]) \<and>
         (toolchain c' ''LIB_SUFFIX'' \<noteq> None \<longleftrightarrow> version_lt (version c) [2, 1, 0]) \<and>
         (toolchain c' ''CUDA'' \<noteq> None \<longleftrightarrow>
            version_ge (version c) [2, 1, 0] \<and> version_lt (version c) [2, 2, 0]) \<and>
         (toolchain c' ''USE_CUDA'' \<noteq> None \<longleftrightarrow> version_ge (version c) [2, 2, 0])"
proof (cases "version c" rule: version_ranges)
  case old
  from generate_old[OF assms old] old show ?thesis
    unfolding version_ge_def by (elim exE conjE) simp
next
  case v20
  from generate_v20[OF assms v20] v20 show ?thesis
    unfolding version_ge_def by simp
next
  case v21
  from generate_v21[OF assms v21] v21 show ?thesis
    unfolding version_ge_def by (elim exE conjE) simp
next
  case v22
  from generate_v22[OF assms v22] v22 show ?thesis
    unfolding version_ge_def by (elim exE conjE) simp
qed

lemma generate_total:
  assumes "complete_options (options c)"
  shows "\<exists>c'. generate c = Inr c'"
proof -
  have p: "\<And>k. k \<in> fst ` set declared_options \<Longrightarrow> \<exists>v. options c k = Some v"
    using assms complete_options_present by blast
  obtain v1 where v1: "options c ''use_glog'' = Some v1"
    using p[of "''use_glog''"] by (auto simp: declared_options_def)
  obtain v2 where v2: "options c ''use_schur_specializations'' = Some v2"
    using p[of "''use_schur_specializations''"] by (auto simp: declared_options_def)
  obtain v3 where v3: "options c ''use_custom_blas'' = Some v3"
    using p[of "''use_custom_blas''"] by (auto simp: declared_options_def)
  obtain v4 where v4: "options c ''use_eigen_sparse'' = Some v4"
    using p[of "''use_eigen_sparse''"] by (auto simp: declared_options_def)
  obtain v5 where v5: "options c ''use_cuda'' = Some v5"
    using p[of "''use_cuda''"] by (auto simp: declared_options_def)
  obtain v6 where v6: "options c ''use_CXX11'' = Some v6"
    using p[of "''use_CXX11''"] by (auto simp: declared_options_def)
  obtain v7 where v7: "options c ''use_TBB'' = Some v7"
    using p[of "''use_TBB''"] by (auto simp: declared_options_def)
  obtain v8 where v8: "options c ''use_CXX11_threads'' = Some v8"
    using p[of "''use_CXX11_threads''"] by (auto simp: declared_options_def)
  show ?thesis
    by (simp add: generate_def Let_def get_option_def then_do_Inr v1 v2 v3 v4 v5 v6 v7 v8
          if_distrib[where f="\<lambda>r. then_do r f" for f]
          del: One_nat_def cong: then_do_weak_cong)
qed

text \<open>
  C7. The translation is deterministic. The variables that \<^verbatim>\<open>generate\<close> assigns, or the
  error it raises, depend only on the options, the version and the settings: two recipe
  objects that agree on these get identical assignments, whatever else differs. Calling
  \<^verbatim>\<open>generate\<close> again on the object it returned changes nothing.
\<close>

theorem generate_deterministic:
  "(options c1 = options c2 \<and> version c1 = version c2 \<and> settings c1 = settings c2 \<longrightarrow>
      map_sum id toolchain (generate c1) = map_sum id toolchain (generate c2)) \<and>
   (\<forall>c'. generate c1 = Inr c' \<longrightarrow> generate c' = Inr c')"
proof -
  have again: "generate c' = Inr c'" if g: "generate c1 = Inr c'" for c'
  proof -
    note f = generate_frame[OF g]
    have same: "options c' = options c1" "version c' = version c1" "settings c' = settings c1"
      by (subst f, simp)+
    from generate_reads[OF same] g
    have "map_sum id toolchain (generate c') = Inr (toolchain c')" by simp
    then obtain c'' where g': "generate c' = Inr c''" and t: "toolchain c'' = toolchain c'"
      by (cases "generate c'") auto
    from generate_frame[OF g'] t have "c'' = c'" by simp
    with g' show ?thesis by simp
  qed
  with generate_reads[of c1 c2] show ?thesis by blast
qed

lemma complete_new_recipe: "complete_options (options (new_recipe v s Map.empty))"
  by (simp add: new_recipe_def complete_default_options)

theorem generate_version_gated_witness:
  "(\<exists>c'. generate (new_recipe [2, 2, 0] (linux_gcc ''Release'') Map.empty) = Inr c' \<and>
      toolchain c' ''USE_CUDA'' = Some (COption OFalse) \<and> toolchain c' ''CUDA'' = None \<and>
      toolchain c' ''LIB_SUFFIX'' = None \<and> toolchain c' ''TBB'' = None) \<and>
   (\<exists>c'. generate (new_recipe [2, 1, 0] (linux_gcc ''Release'') Map.empty) = Inr c' \<and>
      toolchain c' ''USE_CUDA'' = None \<and> toolchain c' ''CUDA'' = Some (COption OFalse) \<and>
      toolchain c' ''LIB_SUFFIX'' = None \<and> toolchain c' ''TBB'' = None) \<and>
   (\<exists>c'. generate (new_recipe [2, 0, 0] (linux_gcc ''Release'') Map.empty) = Inr c' \<and>
      toolchain c' ''USE_CUDA'' = None \<and> toolchain c' ''CUDA'' = None \<and>
      toolchain c' ''LIB_SUFFIX'' \<noteq> None \<and> toolchain c' ''TBB'' = None) \<and>
   (\<exists>c'. generate (new_recipe [1, 14, 0] (linux_gcc ''Release'') Map.empty) = Inr c' \<and>
      toolchain c' ''USE_CUDA'' = None \<and> toolchain c' ''CUDA'' = None \<and>
      toolchain c' ''LIB_SUFFIX'' \<noteq> None \<and> toolchain c' ''TBB'' = Some (COption OFalse))"
proof -
  let ?L = "linux_gcc ''Release''"
  have o: "options (new_recipe v ?L Map.empty) ''use_cuda'' = Some OFalse"
    "options (new_recipe v ?L Map.empty) ''use_TBB'' = Some OFalse" for v
    by (simp_all add: new_recipe_def default_options_def)
  have A: "\<exists>c'. generate (new_recipe [2, 2, 0] ?L Map.empty) = Inr c' \<and>
      toolchain c' ''USE_CUDA'' = Some (COption OFalse) \<and> toolchain c' ''CUDA'' = None \<and>
      toolchain c' ''LIB_SUFFIX'' = None \<and> toolchain c' ''TBB'' = None"
  proof -
    obtain c' where g: "generate (new_recipe [2, 2, 0] ?L Map.empty) = Inr c'"
      using generate_total[OF complete_new_recipe] by blast
    have v: "version_ge (version (new_recipe [2, 2, 0] ?L Map.empty)) [2, 2, 0]"
      "version_ge (version (new_recipe [2, 2, 0] ?L Map.empty)) [2, 0, 0]"
      "\<not> version_lt (version (new_recipe [2, 2, 0] ?L Map.empty)) [2, 1, 0]"
      by (simp_all add: new_recipe_def version_ge_def version_lt_def nonzero_items_def)
    from generate_version_gated[OF g] v o[of "[2, 2, 0]"] g show ?thesis by auto
  qed
  have B: "\<exists>c'. generate (new_recipe [2, 1, 0] ?L Map.empty) = Inr c' \<and>
      toolchain c' ''USE_CUDA'' = None \<and> toolchain c' ''CUDA'' = Some (COption OFalse) \<and>
      toolchain c' ''LIB_SUFFIX'' = None \<and> toolchain c' ''TBB'' = None"
  proof -
    obtain c' where g: "generate (new_recipe [2, 1, 0] ?L Map.empty) = Inr c'"
      using generate_total[OF complete_new_recipe] by blast
    have v: "version_ge (version (new_recipe [2, 1, 0] ?L Map.empty)) [2, 1, 0]"
      "version_lt (version (new_recipe [2, 1, 0] ?L Map.empty)) [2, 2, 0]"
      "version_ge (version (new_recipe [2, 1, 0] ?L Map.empty)) [2, 0, 0]"
      "\<not> version_lt (version (new_recipe [2, 1, 0] ?L Map.empty)) [2, 1, 0]"
      by (simp_all add: new_recipe_def version_ge_def version_lt_def nonzero_items_def)
    from generate_version_gated[OF g] v o[of "[2, 1, 0]"] g show ?thesis by auto
  qed
  have C: "\<exists>c'. generate (new_recipe [2, 0, 0] ?L Map.empty) = Inr c' \<and>
      toolchain c' ''USE_CUDA'' = None \<and> toolchain c' ''CUDA'' = None \<and>
      toolchain c' ''LIB_SUFFIX'' \<noteq> None \<and> toolchain c' ''TBB'' = None"
  proof -
    obtain c' where g: "generate (new_recipe [2, 0, 0] ?L Map.empty) = Inr c'"
      using generate_total[OF complete_new_recipe] by blast
    have v: "version_lt (version (new_recipe [2, 0, 0] ?L Map.empty)) [2, 1, 0]"
      "version_ge (version (new_recipe [2, 0, 0] ?L Map.empty)) [2, 0, 0]"
      by (simp_all add: new_recipe_def version_ge_def version_lt_def nonzero_items_def)
    from generate_version_gated[OF g] v g show ?thesis by auto
  qed
  have D: "\<exists>c'. generate (new_recipe [1, 14, 0] ?L Map.empty) = Inr c' \<and>
      toolchain c' ''USE_CUDA'' = None \<and> toolchain c' ''CUDA'' = None \<and>
      toolchain c' ''LIB_SUFFIX'' \<noteq> None \<and> toolchain c' ''TBB'' = Some (COption OFalse)"
  proof -
    obtain c' where g: "generate (new_recipe [1, 14, 0] ?L Map.empty) = Inr c'"
      using generate_total[OF complete_new_recipe] by blast
    have v: "version_lt (version (new_recipe [1, 14, 0] ?L Map.empty)) [2, 1, 0]"
      "version_lt (version (new_recipe [1, 14, 0] ?L Map.empty)) [2, 0, 0]"
      by (simp_all add: new_recipe_def version_ge_def version_lt_def nonzero_items_def)
    from generate_version_gated[OF g] v o[of "[1, 14, 0]"] g show ?thesis by auto
  qed
  from A B C D show ?thesis by (intro conjI)
qed

theorem generate_deterministic_witness:
  "options (new_recipe [2, 2, 0] (linux_gcc ''Release'') Map.empty) =
     options ((new_recipe [2, 2, 0] (linux_gcc ''Release'') Map.empty)
                \<lparr>output_warnings := [''use_gflags option is deprecated'']\<rparr>) \<and>
   version (new_recipe [2, 2, 0] (linux_gcc ''Release'') Map.empty) =
     version ((new_recipe [2, 2, 0] (linux_gcc ''Release'') Map.empty)
                \<lparr>output_warnings := [''use_gflags option is deprecated'']\<rparr>) \<and>
   settings (new_recipe [2, 2, 0] (linux_gcc ''Release'') Map.empty) =
     settings ((new_recipe [2, 2, 0] (linux_gcc ''Release'') Map.empty)
                \<lparr>output_warnings := [''use_gflags option is deprecated'']\<rparr>) \<and>
   map_sum id toolchain (generate (new_recipe [2, 2, 0] (linux_gcc ''Release'') Map.empty)) =
     map_sum id toolchain
       (generate ((new_recipe [2, 2, 0] (linux_gcc ''Release'') Map.empty)
                    \<lparr>output_warnings := [''use_gflags option is deprecated'']\<rparr>)) \<and>
   (\<exists>c'. generate (new_recipe [2, 2, 0] (linux_gcc ''Release'') Map.empty) = Inr c' \<and>
      generate c' = Inr c')"
proof -
  let ?c = "new_recipe [2, 2, 0] (linux_gcc ''Release'') Map.empty"
  let ?d = "?c\<lparr>output_warnings := [''use_gflags option is deprecated'']\<rparr>"
  have e: "options ?c = options ?d" "version ?c = version ?d" "settings ?c = settings ?d"
    by simp_all
  obtain c' where g: "generate ?c = Inr c'"
    using generate_total[OF complete_new_recipe] by blast
  from generate_deterministic[of ?c ?d] e g show ?thesis by blast
qed

subsection \<open>The example of the spec, through the whole pipeline\<close>

lemma example_recipe_more:
  "options (example_recipe s) ''use_schur_specializations'' = Some OTrue"
  "options (example_recipe s) ''use_custom_blas'' = Some OTrue"
  "options (example_recipe s) ''use_eigen_sparse'' = Some OTrue"
  by (simp_all add: example_recipe_def example_overlay_def new_recipe_def default_options_def
        map_add_def)

lemma min_cppstd_example: "min_cppstd (example_recipe s) = ''17''"
  by (simp add: min_cppstd_def example_recipe_sel version_2_2_0)

lemma generate_total_2_2_0:
  assumes "version c = [2, 2, 0]"
    and "options c ''use_glog'' = Some v1"
    and "options c ''use_schur_specializations'' = Some v2"
    and "options c ''use_custom_blas'' = Some v3"
    and "options c ''use_eigen_sparse'' = Some v4"
    and "options c ''use_cuda'' = Some v5"
  shows "\<exists>c'. generate c = Inr c'"
  by (simp add: generate_def Let_def get_option_def then_do_Inr version_ge_def version_lt_def
        nonzero_items_def assms cong: then_do_weak_cong)

lemma example_create:
  assumes ok: "validate (example_recipe s) = Inr ()"
  obtains d where "create (example_recipe s) = Inr d"
    and "map ref (requires d) = [''eigen/3.4.0'']"
    and "libs (ceres (cpp_info d)) =
       [''ceres'' @ (if build_type s = ''Debug'' then ''-debug'' else ''''),
        ''ceres_cuda_kernels'' @ (if build_type s = ''Debug'' then ''-debug'' else '''')]"
    and "includedirs (ceres (cpp_info d)) =
       [''include'', ''include/ceres'', ''include/ceres/internal/miniglog'']"
proof -
  let ?c = "example_recipe s"
  obtain c1 where c1: "config_options ?c = Inr c1"
    using config_options_total[OF complete_example_recipe] by blast
  have c1o: "options c1 ''shared'' = Some OFalse" "options c1 ''use_gflags'' = Some ODeprecated"
    "options c1 ''use_glog'' = Some OFalse" "options c1 ''use_cuda'' = Some OTrue"
    "options c1 ''use_schur_specializations'' = Some OTrue"
    "options c1 ''use_custom_blas'' = Some OTrue"
    "options c1 ''use_eigen_sparse'' = Some OTrue"
    using config_options_frame(3)[OF c1] example_recipe_sel example_recipe_more by simp_all
  have c1t: "options c1 ''use_TBB'' = None"
    by (subst config_options_result[OF c1]) (simp add: example_recipe_sel version_2_2_0)
  have c1s: "version c1 = [2, 2, 0]" "settings c1 = s" "cpp_info c1 = cpp_info ?c"
    "requires c1 = []"
    using config_options_frame(1,2)[OF c1] config_options_cpp_info[OF c1]
      config_options_requires[OF c1]
    by (simp_all add: example_recipe_sel)
  obtain c2 where c2: "configure c1 = Inr c2"
    using configure_total[OF c1o(1) c1o(2)] by blast
  have c2o: "options c2 ''shared'' = Some OFalse" "options c2 ''use_gflags'' = Some ODeprecated"
    "options c2 ''use_glog'' = Some OFalse" "options c2 ''use_cuda'' = Some OTrue"
    "options c2 ''use_schur_specializations'' = Some OTrue"
    "options c2 ''use_custom_blas'' = Some OTrue"
    "options c2 ''use_eigen_sparse'' = Some OTrue"
    "options c2 ''use_TBB'' = None"
    using configure_frame(5)[OF c2] c1o c1t by simp_all
  have c2s: "version c2 = [2, 2, 0]" "settings c2 = s" "cpp_info c2 = cpp_info ?c"
    "requires c2 = []"
    using configure_frame(1,2,3,4)[OF c2] c1s by simp_all
  obtain c3 where c3: "requirements c2 = Inr c3"
    and c3e: "c3 = c2\<lparr>requires := [\<lparr>ref = ''eigen/3.4.0'', transitive_headers = Some True,
                    transitive_libs = None\<rparr>]\<rparr>"
    using requirements_result[OF c2o(3)] c2s(4) c2o(8) by (simp add: get_safe_def)
  obtain c4 where c4: "build_requirements c3 = Inr c4"
    and c4e: "c4 = c3\<lparr>tool_requires := tool_requires c3 @ [''cmake/[>=3.21]'']\<rparr>"
    by (simp add: build_requirements_def c3e c2s version_2_2_0)
  have c4o: "options c4 = options c2" "version c4 = [2, 2, 0]" "settings c4 = s"
    "cpp_info c4 = cpp_info ?c"
    "map ref (requires c4) = [''eigen/3.4.0'']"
    by (simp_all add: c4e c3e c2s)
  obtain i where i: "package_id c4 = Inr i"
    using package_id_total[of c4 ODeprecated] c4o(1) c2o(2) by auto
  have val: "validate c4 = Inr ()"
    using validate_cong[of c4 ?c] ok c4o(2,3) by (simp add: example_recipe_sel)
  obtain c5 where g: "generate c4 = Inr c5"
    using generate_total_2_2_0[of c4 OFalse OTrue OTrue OTrue OTrue] c4o(1,2) c2o by auto
  have c5o: "options c5 = options c2" "settings c5 = s" "cpp_info c5 = cpp_info ?c"
    "map ref (requires c5) = [''eigen/3.4.0'']"
    using c4o by ((subst generate_frame[OF g], simp)+)
  obtain d where d: "package_info c5 = Inr d"
    using package_info_total[of c5 OTrue OFalse OFalse] c5o(1) c2o by auto
  have r: "map ref (requires d) = [''eigen/3.4.0'']"
    using package_info_frame(4)[OF d] c5o(4) by simp
  have l: "libs (ceres (cpp_info d)) =
       [''ceres'' @ (if build_type s = ''Debug'' then ''-debug'' else ''''),
        ''ceres_cuda_kernels'' @ (if build_type s = ''Debug'' then ''-debug'' else '''')]"
    using package_info_libs[OF d] c5o(1,2) c2o by auto
  have inc: "includedirs (ceres (cpp_info d)) =
       [''include'', ''include/ceres'', ''include/ceres/internal/miniglog'']"
    using package_info_includedirs[OF d] c5o(1,3) c2o
    by (auto simp: example_recipe_sel new_component_def)
  have "create ?c = Inr d"
    by (simp add: create_def c1 c2 c3 c4 i val g d then_do_Inr)
  then show ?thesis using r l inc by (rule that)
qed

text \<open>
  C5. The example of the spec: version 2.2.0 on Linux with gcc and the overlay
  \<^verbatim>\<open>{use_glog: false, use_cuda: true}\<close>, in a configuration that \<^verbatim>\<open>validate\<close> accepts and
  whose build type is not \<^verbatim>\<open>Debug\<close> (the suffix of a Debug build is the subject of C3).
  The minimum language standard is \<^verbatim>\<open>"17"\<close>; the pipeline runs to its end, and in what it
  returns the only requirement declared is eigen, the emitted library names are
  \<^verbatim>\<open>["ceres", "ceres_cuda_kernels"]\<close>, and the include directories contain the miniglog
  path.
\<close>

theorem example_2_2_0:
  assumes "os s = ''Linux''" and "compiler s = ''gcc''" and "build_type s \<noteq> ''Debug''"
    and "validate (example_recipe s) = Inr ()"
  shows "min_cppstd (example_recipe s) = ''17'' \<and>
         (\<exists>d. create (example_recipe s) = Inr d \<and>
            map ref (requires d) = [''eigen/3.4.0''] \<and>
            libs (ceres (cpp_info d)) = [''ceres'', ''ceres_cuda_kernels''] \<and>
            ''include/ceres/internal/miniglog'' \<in> set (includedirs (ceres (cpp_info d))))"
proof -
  obtain d where
    d: "create (example_recipe s) = Inr d"
    and r: "map ref (requires d) = [''eigen/3.4.0'']"
    and l: "libs (ceres (cpp_info d)) =
       [''ceres'' @ (if build_type s = ''Debug'' then ''-debug'' else ''''),
        ''ceres_cuda_kernels'' @ (if build_type s = ''Debug'' then ''-debug'' else '''')]"
    and i: "includedirs (ceres (cpp_info d)) =
       [''include'', ''include/ceres'', ''include/ceres/internal/miniglog'']"
    using assms(4) by (rule example_create)
  have l': "libs (ceres (cpp_info d)) = [''ceres'', ''ceres_cuda_kernels'']"
    using l assms(3) by simp
  have i': "''include/ceres/internal/miniglog'' \<in> set (includedirs (ceres (cpp_info d)))"
    by (simp add: i)
  have "\<exists>d. create (example_recipe s) = Inr d \<and>
            map ref (requires d) = [''eigen/3.4.0''] \<and>
            libs (ceres (cpp_info d)) = [''ceres'', ''ceres_cuda_kernels''] \<and>
            ''include/ceres/internal/miniglog'' \<in> set (includedirs (ceres (cpp_info d)))"
    by (rule exI[of _ d]) (simp only: d r l' i' simp_thms)
  with min_cppstd_example show ?thesis by (rule conjI)
qed

theorem example_2_2_0_witness:
  "os (linux_gcc ''Release'') = ''Linux'' \<and> compiler (linux_gcc ''Release'') = ''gcc'' \<and>
   build_type (linux_gcc ''Release'') \<noteq> ''Debug'' \<and>
   validate (example_recipe (linux_gcc ''Release'')) = Inr () \<and>
   min_cppstd (example_recipe (linux_gcc ''Release'')) = ''17'' \<and>
   (\<exists>d. create (example_recipe (linux_gcc ''Release'')) = Inr d \<and>
      map ref (requires d) = [''eigen/3.4.0''] \<and>
      libs (ceres (cpp_info d)) = [''ceres'', ''ceres_cuda_kernels''] \<and>
      ''include/ceres/internal/miniglog'' \<in> set (includedirs (ceres (cpp_info d))))"
proof -
  let ?c = "example_recipe (linux_gcc ''Release'')"
  have 1: "os (linux_gcc ''Release'') = ''Linux''" by (simp add: linux_gcc_def)
  have 2: "compiler (linux_gcc ''Release'') = ''gcc''" by (simp add: linux_gcc_def)
  have 3: "build_type (linux_gcc ''Release'') \<noteq> ''Debug''" by (simp add: linux_gcc_def)
  have t: "compilers_minimum_version ?c (compiler (settings ?c)) = Some [8]"
    unfolding compilers_minimum_version_def min_cppstd_example
    by (simp add: example_recipe_sel linux_gcc_def)
  have l: "\<not> version_lt (compiler_version (settings ?c)) [8]"
    by (simp add: example_recipe_sel linux_gcc_def version_lt_def nonzero_items_def)
  have n: "compiler_cppstd (settings ?c) = None"
    by (simp add: example_recipe_sel linux_gcc_def)
  have 4: "validate ?c = Inr ()"
    using validate_cases[of ?c] t l n by auto
  from example_2_2_0[OF 1 2 3 4] 1 2 3 4 show ?thesis by (intro conjI) simp_all
qed

end
